theory Spec2Isabelle
  imports Complex_Main "HOL-Library.Word"
begin

section \<open>The SoapySDR input driver of dumphfdl (src/input-soapysdr.c)\<close>

text \<open>
  The driver talks to three kinds of code that are not part of the file: the SoapySDR
  library and the device behind it, the helpers of \<^verbatim>\<open>input-helpers.h\<close> and
  \<^verbatim>\<open>input-common.h\<close>, and the C library. All of them are parameters of the model,
  collected in the record \<open>env\<close>. The world outside the driver (device, transport, the
  global flag \<^verbatim>\<open>do_exit\<close> shared with the other threads) is a state of an arbitrary
  type \<open>'w\<close>; every call that can touch it takes the world and returns the new one.
  Everything the driver does to the outside is written to a trace of events, each with
  the arguments passed and the value that came back, in program order.
\<close>

subsection \<open>Data\<close>

type_synonym kwargs = "(string \<times> string) list"
  \<comment> \<open>\<^verbatim>\<open>SoapySDRKwargs\<close>: keys[i], vals[i] for i < size\<close>

type_synonym devptr = nat
  \<comment> \<open>a non-NULL \<^verbatim>\<open>SoapySDRDevice *\<close>; NULL is \<open>None\<close>\<close>

type_synonym strptr = nat
  \<comment> \<open>a non-NULL \<^verbatim>\<open>SoapySDRStream *\<close>; NULL is \<open>None\<close>\<close>

type_synonym byte = "8 word"

datatype buffer = Inbuf | Outbuf

text \<open>
  The lines written to stderr, one constructor for each \<^verbatim>\<open>fprintf\<close> of the file, in
  three groups: the reports that carry the text of \<^verbatim>\<open>SoapySDRDevice_lastError()\<close>
  (its last argument), the other error lines, and the informational lines.
\<close>

datatype device_report =
    Could_not_open string string
  | SetSampleRate_failed string string
  | SetFrequency_failed string string
  | SetFrequencyCorrection_failed string string
  | SetDCOffsetMode_failed string string
  | Could_not_set_gain string string
  | Could_not_enable_auto_gain string string
  | Could_not_select_antenna string string
  | Could_not_set_up_stream string string

datatype info =
    Found_device nat
  | Device_kv string string
  | Center_frequency_set string int
  | Frequency_correction_set string real
  | Gain_element_set string string real
  | Gain_set string real
  | Auto_gain_enabled string
  | Using_antenna string string
  | Setting_result string string string bool
  | Using_native_format string string real
  | Using_non_native_format string string real

datatype logmsg =
    Report device_report
  | Info info
  | Unable_to_parse_gains
  | No_auto_gain_support string
  | Unable_to_parse_device_settings string string
  | Failed_to_read_formats string
  | No_suitable_sample_format string
  | Failed_to_activate_stream string string
  | ReadStream_failed string string

text \<open>
  The events of the trace, each call with its arguments (the handles left out) and the
  value that came back: the calls that open the device and set up its stream, the calls
  that tune it, the gain calls, what the capture thread does before and inside its loop,
  what it does after the loop, and the lines on stderr. \<^verbatim>\<open>debug_print\<close> and the
  release of parsed key/value lists are left out.
\<close>

datatype open_call =
    Call_enumerate "kwargs list"
  | Call_makeStrArgs string "devptr option"
  | Call_lastError string
  | Call_getNativeStreamFormat string real
  | Call_getStreamFormats "string list option"
  | Call_setupStream "string option" "strptr option"
  | Call_getStreamMTU nat

datatype tune_call =
    Call_setSampleRate real int
  | Call_setFrequency real int
  | Call_setFrequencyCorrection real int
  | Call_hasDCOffsetMode bool
  | Call_setDCOffsetMode bool int
  | Call_setAntenna string int
  | Call_getAntenna string
  | Call_writeSetting string string int
  | Call_readSetting string string

datatype gain_call =
    Call_setGainElement string real int
  | Call_getGainElement string real
  | Call_setGain real int
  | Call_hasGainMode bool
  | Call_setGainMode bool int

datatype capture_step =
    Xcalloc buffer nat nat
  | Call_activateStream int
  | Set_do_exit int
  | Call_usleep nat
  | Call_readStream nat int
  | Call_convert_sample_buffer "byte list" nat
  | Call_complex_samples_produce "complex list" nat

datatype shutdown_step =
    Call_deactivateStream int
  | Call_closeStream int
  | Call_unmake int
  | Call_block_connection_one2one_shutdown
  | Set_running bool
  | Xfree buffer

datatype event =
    Open open_call
  | Tune tune_call
  | Gain gain_call
  | Capture capture_step
  | Shutdown shutdown_step
  | Stderr logmsg

text \<open>
  \<^verbatim>\<open>struct input_cfg\<close>, the fields the driver reads. A \<^verbatim>\<open>char *\<close> that may be NULL is
  an option. The header that declares the struct is not part of the file; the numeric
  fields are taken as unbounded integers and reals.
\<close>

record input_cfg =
  source :: string
  sample_rate :: int
  centerfreq :: int
  freq_offset :: int
  correction :: real
  gain_elements :: "string option"
  gain :: real
  antenna :: "string option"
  device_settings :: "string option"

text \<open>
  \<^verbatim>\<open>struct soapysdr_input\<close> with the \<^verbatim>\<open>struct input\<close> embedded in it, the field
  \<^verbatim>\<open>sfmt\<close> of the configuration (the one field of it the driver writes), the world and
  the trace.
\<close>

record ('w, 'sf) soapysdr_input =
  world :: 'w
  trace :: "event list"
  cfg_sfmt :: 'sf
  input_full_scale :: real
  bytes_per_sample :: nat
  max_tu :: nat
  running :: bool
  sdr :: "devptr option"
  stream :: "strptr option"

text \<open>
  The parameters of the model. \<open>'sf\<close> is the enum \<^verbatim>\<open>sample_format\<close>, with its member
  \<^verbatim>\<open>SFMT_UNDEF\<close>; the functions of \<^verbatim>\<open>input-helpers.h\<close> on it and the constant
  \<^verbatim>\<open>AUTO_GAIN\<close> are not part of the file and are taken as they come, with no assumption
  that relates them to each other or to \<^verbatim>\<open>SoapySDR_formatToSize\<close>. A \<^verbatim>\<open>double\<close> and a
  \<^verbatim>\<open>float\<close> are both real numbers here, and the conversion from the first to the
  second, which C performs when a \<^verbatim>\<open>double\<close> is stored in a \<^verbatim>\<open>float\<close> field, is the
  parameter \<open>double_to_float\<close>. The converter \<^verbatim>\<open>input->convert_sample_buffer\<close> is given
  the input, the raw buffer, the number of bytes and the output buffer, and returns the
  output buffer as it leaves it. \<^verbatim>\<open>readStream\<close> is given the raw buffer and the number
  of samples asked for, and returns its result with the raw buffer as it leaves it. The
  calls that take the device or the stream from the fields of the input (the capture
  thread) are given the fields as they are, NULL or not.
\<close>

record ('w, 'sf) env =
  SFMT_UNDEF :: 'sf
  sample_format_from_string :: "string \<Rightarrow> 'sf"
  get_sample_size :: "'sf \<Rightarrow> nat"
  get_sample_full_scale_value :: "'sf \<Rightarrow> real"
  AUTO_GAIN :: real
  convert_sample_buffer ::
    "('w, 'sf) soapysdr_input \<Rightarrow> byte list \<Rightarrow> nat \<Rightarrow> complex list \<Rightarrow> complex list"
  atof :: "string \<Rightarrow> real"
  double_to_float :: "real \<Rightarrow> real"
  get_do_exit :: "'w \<Rightarrow> int"
  put_do_exit :: "int \<Rightarrow> 'w \<Rightarrow> 'w"
  SoapySDR_formatToSize :: "string \<Rightarrow> nat"
  SoapySDR_errToStr :: "int \<Rightarrow> string"
  SoapySDRKwargs_fromString :: "string \<Rightarrow> kwargs"
  SoapySDRDevice_enumerate :: "'w \<Rightarrow> kwargs list \<times> 'w"
  SoapySDRDevice_makeStrArgs :: "string \<Rightarrow> 'w \<Rightarrow> devptr option \<times> 'w"
  SoapySDRDevice_lastError :: "'w \<Rightarrow> string"
  SoapySDRDevice_setSampleRate :: "devptr \<Rightarrow> real \<Rightarrow> 'w \<Rightarrow> int \<times> 'w"
  SoapySDRDevice_setFrequency :: "devptr \<Rightarrow> real \<Rightarrow> 'w \<Rightarrow> int \<times> 'w"
  SoapySDRDevice_setFrequencyCorrection :: "devptr \<Rightarrow> real \<Rightarrow> 'w \<Rightarrow> int \<times> 'w"
  SoapySDRDevice_hasDCOffsetMode :: "devptr \<Rightarrow> 'w \<Rightarrow> bool \<times> 'w"
  SoapySDRDevice_setDCOffsetMode :: "devptr \<Rightarrow> bool \<Rightarrow> 'w \<Rightarrow> int \<times> 'w"
  SoapySDRDevice_setGainElement :: "devptr \<Rightarrow> string \<Rightarrow> real \<Rightarrow> 'w \<Rightarrow> int \<times> 'w"
  SoapySDRDevice_getGainElement :: "devptr \<Rightarrow> string \<Rightarrow> 'w \<Rightarrow> real \<times> 'w"
  SoapySDRDevice_setGain :: "devptr \<Rightarrow> real \<Rightarrow> 'w \<Rightarrow> int \<times> 'w"
  SoapySDRDevice_hasGainMode :: "devptr \<Rightarrow> 'w \<Rightarrow> bool \<times> 'w"
  SoapySDRDevice_setGainMode :: "devptr \<Rightarrow> bool \<Rightarrow> 'w \<Rightarrow> int \<times> 'w"
  SoapySDRDevice_setAntenna :: "devptr \<Rightarrow> string \<Rightarrow> 'w \<Rightarrow> int \<times> 'w"
  SoapySDRDevice_getAntenna :: "devptr \<Rightarrow> 'w \<Rightarrow> string \<times> 'w"
  SoapySDRDevice_writeSetting :: "devptr \<Rightarrow> string \<Rightarrow> string \<Rightarrow> 'w \<Rightarrow> int \<times> 'w"
  SoapySDRDevice_readSetting :: "devptr \<Rightarrow> string \<Rightarrow> 'w \<Rightarrow> string \<times> 'w"
  SoapySDRDevice_getNativeStreamFormat :: "devptr \<Rightarrow> 'w \<Rightarrow> (string \<times> real) \<times> 'w"
  SoapySDRDevice_getStreamFormats :: "devptr \<Rightarrow> 'w \<Rightarrow> string list option \<times> 'w"
  SoapySDRDevice_setupStream :: "devptr \<Rightarrow> string option \<Rightarrow> 'w \<Rightarrow> strptr option \<times> 'w"
  SoapySDRDevice_getStreamMTU :: "devptr \<Rightarrow> strptr \<Rightarrow> 'w \<Rightarrow> nat \<times> 'w"
  SoapySDRDevice_activateStream :: "devptr option \<Rightarrow> strptr option \<Rightarrow> 'w \<Rightarrow> int \<times> 'w"
  SoapySDRDevice_readStream ::
    "devptr option \<Rightarrow> strptr option \<Rightarrow> byte list \<Rightarrow> nat \<Rightarrow> 'w \<Rightarrow> (int \<times> byte list) \<times> 'w"
  SoapySDRDevice_deactivateStream :: "devptr option \<Rightarrow> strptr option \<Rightarrow> 'w \<Rightarrow> int \<times> 'w"
  SoapySDRDevice_closeStream :: "devptr option \<Rightarrow> strptr option \<Rightarrow> 'w \<Rightarrow> int \<times> 'w"
  SoapySDRDevice_unmake :: "devptr option \<Rightarrow> 'w \<Rightarrow> int \<times> 'w"
  usleep :: "nat \<Rightarrow> 'w \<Rightarrow> 'w"
  block_connection_one2one_shutdown :: "'w \<Rightarrow> 'w"
  complex_samples_produce :: "complex list \<Rightarrow> nat \<Rightarrow> 'w \<Rightarrow> 'w"

text \<open>\<^verbatim>\<open>struct sample_format_search_result\<close>\<close>

record 'sf sample_format_search_result =
  sfmt :: 'sf
  soapy_sfmt :: "string option"
  full_scale :: real
  sample_size :: nat

definition emit :: "event \<Rightarrow> ('w, 'sf) soapysdr_input \<Rightarrow> ('w, 'sf) soapysdr_input" where
  "emit e s = s\<lparr>trace := trace s @ [e]\<rparr>"

definition new_events ::
  "('w, 'sf) soapysdr_input \<Rightarrow> ('w, 'sf) soapysdr_input \<Rightarrow> event list" where
  "new_events s s' = drop (length (trace s)) (trace s')"

subsection \<open>soapysdr_choose_sample_format\<close>

text \<open>
  The condition of the first \<^verbatim>\<open>if\<close> (lines 56 to 58). Its three conjuncts assign
  to the fields of \<^verbatim>\<open>result\<close> as they are evaluated, from left to right, and the
  evaluation stops at the first one that is false. The value is the pair of the
  condition and the result as the condition leaves it.
\<close>

definition native_test ::
  "('w, 'sf) env \<Rightarrow> string \<Rightarrow> real \<Rightarrow> 'sf sample_format_search_result
     \<Rightarrow> bool \<times> 'sf sample_format_search_result" where
  "native_test E fmt fullscale result =
     (let r1 = result\<lparr>sfmt := sample_format_from_string E fmt\<rparr> in
      if sfmt r1 \<noteq> SFMT_UNDEF E then
        (let r2 = r1\<lparr>sample_size := SoapySDR_formatToSize E fmt\<rparr> in
         if sample_size r2 = get_sample_size E (sfmt r2) then
           (let r3 = r2\<lparr>full_scale := double_to_float E fullscale\<rparr> in
            (full_scale r3 > 0, r3))
         else (False, r2))
      else (False, r1))"

text \<open>The condition of the \<^verbatim>\<open>if\<close> in the loop (lines 73 and 74), in the same way.\<close>

definition format_test ::
  "('w, 'sf) env \<Rightarrow> string \<Rightarrow> 'sf sample_format_search_result
     \<Rightarrow> bool \<times> 'sf sample_format_search_result" where
  "format_test E f result =
     (let r1 = result\<lparr>sfmt := sample_format_from_string E f\<rparr> in
      if sfmt r1 \<noteq> SFMT_UNDEF E then
        (let r2 = r1\<lparr>sample_size := SoapySDR_formatToSize E f\<rparr> in
         (sample_size r2 = get_sample_size E (sfmt r2), r2))
      else (False, r1))"

text \<open>
  The loop of lines 72 to 81 over \<^verbatim>\<open>formats[i]\<close>, \<^verbatim>\<open>i < len\<close>. It leaves at the first
  entry that passes the test; when the entries run out it leaves with the result as the
  last test wrote it.
\<close>

fun search_formats ::
  "('w, 'sf) env \<Rightarrow> string \<Rightarrow> string list \<Rightarrow> 'sf sample_format_search_result
     \<Rightarrow> ('w, 'sf) soapysdr_input
     \<Rightarrow> 'sf sample_format_search_result \<times> ('w, 'sf) soapysdr_input" where
  "search_formats E src [] result s = (result, s)"
| "search_formats E src (f # fs) result s =
     (case format_test E f result of
        (True, r) \<Rightarrow>
          (let r' = r\<lparr>full_scale := get_sample_full_scale_value E (sfmt r)\<rparr>;
               r'' = r'\<lparr>soapy_sfmt := Some f\<rparr>
           in (r'', emit (Stderr (Info (Using_non_native_format src f (full_scale r'')))) s))
      | (False, r) \<Rightarrow> search_formats E src fs r s)"

definition soapysdr_choose_sample_format ::
  "('w, 'sf) env \<Rightarrow> devptr \<Rightarrow> string \<Rightarrow> ('w, 'sf) soapysdr_input
     \<Rightarrow> 'sf sample_format_search_result \<times> ('w, 'sf) soapysdr_input" where
  "soapysdr_choose_sample_format E dev src s =
     (let result = \<lparr>sfmt = SFMT_UNDEF E, soapy_sfmt = None, full_scale = 0, sample_size = 0\<rparr>;
          ((fmt, fullscale), w1) = SoapySDRDevice_getNativeStreamFormat E dev (world s);
          s1 = emit (Open (Call_getNativeStreamFormat fmt fullscale)) (s\<lparr>world := w1\<rparr>)
      in case native_test E fmt fullscale result of
           (True, r) \<Rightarrow>
             (r\<lparr>soapy_sfmt := Some fmt\<rparr>,
              emit (Stderr (Info (Using_native_format src fmt (full_scale r)))) s1)
         | (False, r) \<Rightarrow>
             (let (formats, w2) = SoapySDRDevice_getStreamFormats E dev (world s1);
                  s2 = emit (Open (Call_getStreamFormats formats)) (s1\<lparr>world := w2\<rparr>)
              in case formats of
                   None \<Rightarrow>
                     (r\<lparr>sfmt := SFMT_UNDEF E\<rparr>, emit (Stderr (Failed_to_read_formats src)) s2)
                 | Some fs \<Rightarrow>
                     if length fs = 0
                     then (r\<lparr>sfmt := SFMT_UNDEF E\<rparr>, emit (Stderr (Failed_to_read_formats src)) s2)
                     else search_formats E src fs r s2))"

subsection \<open>soapysdr_input_init\<close>

text \<open>
  The body of the function is a sequence of blocks, each of which either returns from the
  function or falls through to the next block. A block is a function from the state to a
  \<open>flow\<close>: \<open>Return r s\<close> when it has executed \<^verbatim>\<open>return r\<close> in state \<open>s\<close>,
  \<open>Next s\<close> when control leaves it at its end. \<open>run_steps\<close> runs the blocks in order
  and stops at the first that returns.
\<close>

datatype 'a flow = Return int 'a | Next 'a

fun flow_state :: "'a flow \<Rightarrow> 'a" where
  "flow_state (Return r s) = s"
| "flow_state (Next s) = s"

fun run_steps :: "('a \<Rightarrow> 'a flow) list \<Rightarrow> 'a \<Rightarrow> 'a flow" where
  "run_steps [] s = Next s"
| "run_steps (f # fs) s =
     (case f s of Return r s' \<Rightarrow> Return r s' | Next s' \<Rightarrow> run_steps fs s')"

text \<open>
  The common tail of the failure branches:
  \<^verbatim>\<open>fprintf(stderr, ..., SoapySDRDevice_lastError()); return -1;\<close>
\<close>

definition report_failure ::
  "('w, 'sf) env \<Rightarrow> (string \<Rightarrow> device_report) \<Rightarrow> ('w, 'sf) soapysdr_input
     \<Rightarrow> ('w, 'sf) soapysdr_input flow" where
  "report_failure E msg s =
     (let err = SoapySDRDevice_lastError E (world s);
          s1 = emit (Open (Call_lastError err)) s
      in Return (- 1) (emit (Stderr (Report (msg err))) s1))"

text \<open>Lines 29 to 40.\<close>

definition soapysdr_verbose_device_search ::
  "('w, 'sf) env \<Rightarrow> ('w, 'sf) soapysdr_input \<Rightarrow> ('w, 'sf) soapysdr_input" where
  "soapysdr_verbose_device_search E s =
     (let (results, w1) = SoapySDRDevice_enumerate E (world s);
          s1 = emit (Open (Call_enumerate results)) (s\<lparr>world := w1\<rparr>)
      in fold (\<lambda>(i, kw) s'.
                 fold (\<lambda>(k, v). emit (Stderr (Info (Device_kv k v)))) kw
                   (emit (Stderr (Info (Found_device i))) s'))
           (List.enumerate 0 results) s1)"

text \<open>Lines 96 to 99.\<close>

definition set_sample_rate ::
  "('w, 'sf) env \<Rightarrow> input_cfg \<Rightarrow> devptr \<Rightarrow> ('w, 'sf) soapysdr_input
     \<Rightarrow> ('w, 'sf) soapysdr_input flow" where
  "set_sample_rate E cfg dev s =
     (let (rc, w1) = SoapySDRDevice_setSampleRate E dev (real_of_int (sample_rate cfg)) (world s);
          s1 = emit (Tune (Call_setSampleRate (real_of_int (sample_rate cfg)) rc)) (s\<lparr>world := w1\<rparr>)
      in if rc \<noteq> 0 then report_failure E (SetSampleRate_failed (source cfg)) s1
         else Next s1)"

text \<open>Lines 100 to 105.\<close>

definition set_frequency ::
  "('w, 'sf) env \<Rightarrow> input_cfg \<Rightarrow> devptr \<Rightarrow> ('w, 'sf) soapysdr_input
     \<Rightarrow> ('w, 'sf) soapysdr_input flow" where
  "set_frequency E cfg dev s =
     (let f = centerfreq cfg + freq_offset cfg;
          (rc, w1) = SoapySDRDevice_setFrequency E dev (real_of_int f) (world s);
          s1 = emit (Tune (Call_setFrequency (real_of_int f) rc)) (s\<lparr>world := w1\<rparr>)
      in if rc \<noteq> 0 then report_failure E (SetFrequency_failed (source cfg)) s1
         else Next (emit (Stderr (Info (Center_frequency_set (source cfg) f))) s1))"

text \<open>Lines 106 to 110.\<close>

definition set_frequency_correction ::
  "('w, 'sf) env \<Rightarrow> input_cfg \<Rightarrow> devptr \<Rightarrow> ('w, 'sf) soapysdr_input
     \<Rightarrow> ('w, 'sf) soapysdr_input flow" where
  "set_frequency_correction E cfg dev s =
     (let (rc, w1) = SoapySDRDevice_setFrequencyCorrection E dev (correction cfg) (world s);
          s1 = emit (Tune (Call_setFrequencyCorrection (correction cfg) rc)) (s\<lparr>world := w1\<rparr>)
      in if rc \<noteq> 0 then report_failure E (SetFrequencyCorrection_failed (source cfg)) s1
         else Next (emit (Stderr (Info (Frequency_correction_set (source cfg) (correction cfg)))) s1))"

text \<open>Lines 111 to 116.\<close>

definition set_dc_offset_mode ::
  "('w, 'sf) env \<Rightarrow> input_cfg \<Rightarrow> devptr \<Rightarrow> ('w, 'sf) soapysdr_input
     \<Rightarrow> ('w, 'sf) soapysdr_input flow" where
  "set_dc_offset_mode E cfg dev s =
     (let (has, w1) = SoapySDRDevice_hasDCOffsetMode E dev (world s);
          s1 = emit (Tune (Call_hasDCOffsetMode has)) (s\<lparr>world := w1\<rparr>)
      in if has then
           (let (rc, w2) = SoapySDRDevice_setDCOffsetMode E dev True (world s1);
                s2 = emit (Tune (Call_setDCOffsetMode True rc)) (s1\<lparr>world := w2\<rparr>)
            in if rc \<noteq> 0 then report_failure E (SetDCOffsetMode_failed (source cfg)) s2
               else Next s2)
         else Next s1)"

text \<open>The loop of lines 127 to 132 over the parsed gain elements.\<close>

fun set_gain_elements ::
  "('w, 'sf) env \<Rightarrow> input_cfg \<Rightarrow> devptr \<Rightarrow> kwargs \<Rightarrow> ('w, 'sf) soapysdr_input
     \<Rightarrow> ('w, 'sf) soapysdr_input" where
  "set_gain_elements E cfg dev [] s = s"
| "set_gain_elements E cfg dev ((k, v) # gains) s =
     (let (rc, w1) = SoapySDRDevice_setGainElement E dev k (atof E v) (world s);
          s1 = emit (Gain (Call_setGainElement k (atof E v) rc)) (s\<lparr>world := w1\<rparr>);
          (gain_value, w2) = SoapySDRDevice_getGainElement E dev k (world s1);
          s2 = emit (Gain (Call_getGainElement k gain_value)) (s1\<lparr>world := w2\<rparr>);
          s3 = emit (Stderr (Info (Gain_element_set (source cfg) k gain_value))) s2
      in set_gain_elements E cfg dev gains s3)"

text \<open>Lines 118 to 151.\<close>

definition set_gains ::
  "('w, 'sf) env \<Rightarrow> input_cfg \<Rightarrow> devptr \<Rightarrow> ('w, 'sf) soapysdr_input
     \<Rightarrow> ('w, 'sf) soapysdr_input flow" where
  "set_gains E cfg dev s =
     (case gain_elements cfg of
        Some g \<Rightarrow>
          (let gains = SoapySDRKwargs_fromString E g in
           if length gains < 1 then Return (- 1) (emit (Stderr Unable_to_parse_gains) s)
           else Next (set_gain_elements E cfg dev gains s))
      | None \<Rightarrow>
          if gain cfg \<noteq> AUTO_GAIN E then
            (let (rc, w1) = SoapySDRDevice_setGain E dev (gain cfg) (world s);
                 s1 = emit (Gain (Call_setGain (gain cfg) rc)) (s\<lparr>world := w1\<rparr>)
             in if rc \<noteq> 0 then report_failure E (Could_not_set_gain (source cfg)) s1
                else Next (emit (Stderr (Info (Gain_set (source cfg) (gain cfg)))) s1))
          else
            (let (has, w1) = SoapySDRDevice_hasGainMode E dev (world s);
                 s1 = emit (Gain (Call_hasGainMode has)) (s\<lparr>world := w1\<rparr>)
             in if has = False
                then Return (- 1) (emit (Stderr (No_auto_gain_support (source cfg))) s1)
                else
                  (let (rc, w2) = SoapySDRDevice_setGainMode E dev True (world s1);
                       s2 = emit (Gain (Call_setGainMode True rc)) (s1\<lparr>world := w2\<rparr>)
                   in if rc \<noteq> 0
                      then report_failure E (Could_not_enable_auto_gain (source cfg)) s2
                      else Next (emit (Stderr (Info (Auto_gain_enabled (source cfg)))) s2))))"

text \<open>Lines 152 to 158.\<close>

definition log_antenna ::
  "('w, 'sf) env \<Rightarrow> input_cfg \<Rightarrow> devptr \<Rightarrow> ('w, 'sf) soapysdr_input
     \<Rightarrow> ('w, 'sf) soapysdr_input flow" where
  "log_antenna E cfg dev s =
     (let (a, w1) = SoapySDRDevice_getAntenna E dev (world s);
          s1 = emit (Tune (Call_getAntenna a)) (s\<lparr>world := w1\<rparr>)
      in Next (emit (Stderr (Info (Using_antenna (source cfg) a))) s1))"

definition set_antenna ::
  "('w, 'sf) env \<Rightarrow> input_cfg \<Rightarrow> devptr \<Rightarrow> ('w, 'sf) soapysdr_input
     \<Rightarrow> ('w, 'sf) soapysdr_input flow" where
  "set_antenna E cfg dev s =
     (case antenna cfg of
        Some a \<Rightarrow>
          (let (rc, w1) = SoapySDRDevice_setAntenna E dev a (world s);
               s1 = emit (Tune (Call_setAntenna a rc)) (s\<lparr>world := w1\<rparr>)
           in if rc \<noteq> 0 then report_failure E (Could_not_select_antenna a) s1
              else log_antenna E cfg dev s1)
      | None \<Rightarrow> log_antenna E cfg dev s)"

text \<open>The loop of lines 168 to 174 over the parsed settings.\<close>

fun write_settings ::
  "('w, 'sf) env \<Rightarrow> input_cfg \<Rightarrow> devptr \<Rightarrow> kwargs \<Rightarrow> ('w, 'sf) soapysdr_input
     \<Rightarrow> ('w, 'sf) soapysdr_input" where
  "write_settings E cfg dev [] s = s"
| "write_settings E cfg dev ((k, v) # settings_param) s =
     (let (rc, w1) = SoapySDRDevice_writeSetting E dev k v (world s);
          s1 = emit (Tune (Call_writeSetting k v rc)) (s\<lparr>world := w1\<rparr>);
          (setting_value, w2) = SoapySDRDevice_readSetting E dev k (world s1);
          s2 = emit (Tune (Call_readSetting k setting_value)) (s1\<lparr>world := w2\<rparr>);
          s3 = emit (Stderr (Info (Setting_result (source cfg) k setting_value
                                     (v = setting_value)))) s2
      in write_settings E cfg dev settings_param s3)"

text \<open>Lines 160 to 176.\<close>

definition set_device_settings ::
  "('w, 'sf) env \<Rightarrow> input_cfg \<Rightarrow> devptr \<Rightarrow> ('w, 'sf) soapysdr_input
     \<Rightarrow> ('w, 'sf) soapysdr_input flow" where
  "set_device_settings E cfg dev s =
     (case device_settings cfg of
        Some d \<Rightarrow>
          (let settings_param = SoapySDRKwargs_fromString E d in
           if length settings_param < 1
           then Return (- 1) (emit (Stderr (Unable_to_parse_device_settings (source cfg) d)) s)
           else Next (write_settings E cfg dev settings_param s))
      | None \<Rightarrow> Next s)"

text \<open>
  Lines 177 to 203, with the branch of the preprocessor for the SoapySDR API from 0.8 on
  (line 193), where \<^verbatim>\<open>setupStream\<close> returns the stream and NULL is the failure.
\<close>

definition setup_stream ::
  "('w, 'sf) env \<Rightarrow> input_cfg \<Rightarrow> devptr \<Rightarrow> ('w, 'sf) soapysdr_input
     \<Rightarrow> ('w, 'sf) soapysdr_input flow" where
  "setup_stream E cfg dev s =
     (let (chosen, s1) = soapysdr_choose_sample_format E dev (source cfg) s in
      if sfmt chosen = SFMT_UNDEF E
      then Return (- 1) (emit (Stderr (No_suitable_sample_format (source cfg))) s1)
      else
        (let s2 = s1\<lparr>cfg_sfmt := sfmt chosen,
                     input_full_scale := full_scale chosen,
                     bytes_per_sample := sample_size chosen\<rparr>;
             (strm, w3) = SoapySDRDevice_setupStream E dev (soapy_sfmt chosen) (world s2);
             s3 = emit (Open (Call_setupStream (soapy_sfmt chosen) strm)) (s2\<lparr>world := w3\<rparr>)
         in case strm of
              None \<Rightarrow> report_failure E (Could_not_set_up_stream (source cfg)) s3
            | Some st \<Rightarrow>
                (let (mtu, w4) = SoapySDRDevice_getStreamMTU E dev st (world s3);
                     s4 = emit (Open (Call_getStreamMTU mtu)) (s3\<lparr>world := w4\<rparr>)
                 in Return 0 (s4\<lparr>max_tu := mtu, sdr := Some dev, stream := Some st\<rparr>))))"

text \<open>The blocks of the function after the device is open, in the order of the source.\<close>

definition init_steps ::
  "('w, 'sf) env \<Rightarrow> input_cfg \<Rightarrow> devptr
     \<Rightarrow> (('w, 'sf) soapysdr_input \<Rightarrow> ('w, 'sf) soapysdr_input flow) list" where
  "init_steps E cfg dev =
     [set_sample_rate E cfg dev,
      set_frequency E cfg dev,
      set_frequency_correction E cfg dev,
      set_dc_offset_mode E cfg dev,
      set_gains E cfg dev,
      set_antenna E cfg dev,
      set_device_settings E cfg dev,
      setup_stream E cfg dev]"

definition soapysdr_input_init ::
  "('w, 'sf) env \<Rightarrow> input_cfg \<Rightarrow> ('w, 'sf) soapysdr_input \<Rightarrow> int \<times> ('w, 'sf) soapysdr_input" where
  "soapysdr_input_init E cfg s =
     (let s0 = soapysdr_verbose_device_search E s;
          (dev_opt, w1) = SoapySDRDevice_makeStrArgs E (source cfg) (world s0);
          s1 = emit (Open (Call_makeStrArgs (source cfg) dev_opt)) (s0\<lparr>world := w1\<rparr>)
      in case (case dev_opt of
                 None \<Rightarrow> report_failure E (Could_not_open (source cfg)) s1
               | Some dev \<Rightarrow> run_steps (init_steps E cfg dev) s1) of
           Return r s' \<Rightarrow> (r, s')
         | Next s' \<Rightarrow> (0, s'))"

subsection \<open>soapysdr_input_thread\<close>

text \<open>
  One pass through the body of the loop (lines 232 to 242), on the two capture buffers
  and the state. \<^verbatim>\<open>continue\<close> ends the pass.
\<close>

type_synonym ('w, 'sf) capture_state = "byte list \<times> complex list \<times> ('w, 'sf) soapysdr_input"

definition capture_iteration ::
  "('w, 'sf) env \<Rightarrow> input_cfg \<Rightarrow> ('w, 'sf) capture_state \<Rightarrow> ('w, 'sf) capture_state" where
  "capture_iteration E cfg c =
     (case c of (inbuf, outbuf, s) \<Rightarrow>
        (let ((samples_read, inbuf'), w1) =
               SoapySDRDevice_readStream E (sdr s) (stream s) inbuf (max_tu s) (world s);
             s1 = emit (Capture (Call_readStream (max_tu s) samples_read)) (s\<lparr>world := w1\<rparr>)
         in if samples_read < 0 then
              (inbuf', outbuf,
               emit (Stderr (ReadStream_failed (source cfg) (SoapySDR_errToStr E samples_read))) s1)
            else
              (let len = nat samples_read * bytes_per_sample s1;
                   outbuf' = convert_sample_buffer E s1 inbuf' len outbuf;
                   s2 = emit (Capture (Call_convert_sample_buffer inbuf' len)) s1;
                   w3 = complex_samples_produce E outbuf' (nat samples_read) (world s2);
                   s3 = emit (Capture (Call_complex_samples_produce outbuf' (nat samples_read)))
                          (s2\<lparr>world := w3\<rparr>)
               in (inbuf', outbuf', s3))))"

text \<open>
  The loop of lines 231 to 243. The flag \<^verbatim>\<open>do_exit\<close> is read from the world at the top
  of every iteration; the world a blocking call returns is the one in which the other
  threads have run in the meantime. The loop has no bound, so its model is a partial
  function: \<open>None\<close> is the run that never leaves the loop.
\<close>

partial_function (option) capture_loop ::
  "('w, 'sf) env \<Rightarrow> input_cfg \<Rightarrow> ('w, 'sf) capture_state \<Rightarrow> ('w, 'sf) soapysdr_input option" where
  "capture_loop E cfg c =
     (if get_do_exit E (world (snd (snd c))) = 0
      then capture_loop E cfg (capture_iteration E cfg c)
      else Some (snd (snd c)))"

text \<open>The statements after the label \<^verbatim>\<open>shutdown\<close> (lines 246 to 252).\<close>

definition shutdown ::
  "('w, 'sf) env \<Rightarrow> ('w, 'sf) soapysdr_input \<Rightarrow> ('w, 'sf) soapysdr_input" where
  "shutdown E s =
     (let (r1, w1) = SoapySDRDevice_deactivateStream E (sdr s) (stream s) (world s);
          s1 = emit (Shutdown (Call_deactivateStream r1)) (s\<lparr>world := w1\<rparr>);
          (r2, w2) = SoapySDRDevice_closeStream E (sdr s1) (stream s1) (world s1);
          s2 = emit (Shutdown (Call_closeStream r2)) (s1\<lparr>world := w2\<rparr>);
          (r3, w3) = SoapySDRDevice_unmake E (sdr s2) (world s2);
          s3 = emit (Shutdown (Call_unmake r3)) (s2\<lparr>world := w3\<rparr>);
          s4 = emit (Shutdown Call_block_connection_one2one_shutdown)
                 (s3\<lparr>world := block_connection_one2one_shutdown E (world s3)\<rparr>);
          s5 = emit (Shutdown (Set_running False)) (s4\<lparr>running := False\<rparr>);
          s6 = emit (Shutdown (Xfree Inbuf)) s5
      in emit (Shutdown (Xfree Outbuf)) s6)"

text \<open>
  Lines 215 to 254. \<^verbatim>\<open>XCALLOC\<close> gives zeroed buffers; \<^verbatim>\<open>sizeof(float complex)\<close> is 8.
\<close>

definition soapysdr_input_thread ::
  "('w, 'sf) env \<Rightarrow> input_cfg \<Rightarrow> ('w, 'sf) soapysdr_input \<Rightarrow> ('w, 'sf) soapysdr_input option" where
  "soapysdr_input_thread E cfg s =
     (let inbuf = replicate (max_tu s * bytes_per_sample s) (0 :: byte);
          s1 = emit (Capture (Xcalloc Inbuf (max_tu s) (bytes_per_sample s))) s;
          outbuf = replicate (max_tu s) (0 :: complex);
          s2 = emit (Capture (Xcalloc Outbuf (max_tu s) 8)) s1;
          (ret, w3) = SoapySDRDevice_activateStream E (sdr s2) (stream s2) (world s2);
          s3 = emit (Capture (Call_activateStream ret)) (s2\<lparr>world := w3\<rparr>)
      in if ret \<noteq> 0 then
           (let s4 = emit (Stderr (Failed_to_activate_stream (source cfg)
                                     (SoapySDR_errToStr E ret))) s3;
                s5 = emit (Capture (Set_do_exit 1)) (s4\<lparr>world := put_do_exit E 1 (world s4)\<rparr>)
            in Some (shutdown E s5))
         else
           (let s4 = emit (Capture (Call_usleep 100000)) (s3\<lparr>world := usleep E 100000 (world s3)\<rparr>)
            in case capture_loop E cfg (inbuf, outbuf, s4) of
                 None \<Rightarrow> None
               | Some s5 \<Rightarrow> Some (shutdown E s5)))"

subsection \<open>Predicates of the specification\<close>

text \<open>
  The test a stream format has to pass to be selected from the list of the device: its
  name maps to a sample format other than \<^verbatim>\<open>SFMT_UNDEF\<close>, and the size SoapySDR gives
  for the name is the size the program expects for that sample format.
\<close>

definition format_usable :: "('w, 'sf) env \<Rightarrow> string \<Rightarrow> bool" where
  "format_usable E f \<longleftrightarrow>
     sample_format_from_string E f \<noteq> SFMT_UNDEF E \<and>
     SoapySDR_formatToSize E f = get_sample_size E (sample_format_from_string E f)"

text \<open>
  The test on the native format: the same, and the full scale the device reports for it,
  as stored in the \<^verbatim>\<open>float\<close> field of the result, is positive.
\<close>

definition native_usable :: "('w, 'sf) env \<Rightarrow> string \<Rightarrow> real \<Rightarrow> bool" where
  "native_usable E fmt fullscale \<longleftrightarrow> format_usable E fmt \<and> 0 < double_to_float E fullscale"

definition is_native_log :: "event \<Rightarrow> bool" where
  "is_native_log e \<longleftrightarrow> (\<exists>src fmt fs. e = Stderr (Info (Using_native_format src fmt fs)))"

subsection \<open>A device to run the model on\<close>

text \<open>
  An environment in which every call succeeds. The world is a counter of the reads
  issued so far; the flag \<^verbatim>\<open>do_exit\<close> is seen set from the third read on. The sample
  formats are numbered 0 (\<^verbatim>\<open>SFMT_UNDEF\<close>), 1 (CU8), 2 (CS16), 3 (CF32). SoapySDR gives
  CF32 a size that is not the one the program expects, so that a format can be known and
  still fail the size test. The converter writes one sample for every sample size of
  bytes it is given. The first read fails, every later read gives one sample. The
  parameters are the native format of the device, the full scale it reports, and its list
  of formats.
\<close>

definition demo_env :: "string \<Rightarrow> real \<Rightarrow> string list option \<Rightarrow> (nat, nat) env" where
  "demo_env native fullscale formats =
     \<lparr>SFMT_UNDEF = 0,
      sample_format_from_string =
        (\<lambda>f. if f = ''CU8'' then 1 else if f = ''CS16'' then 2 else if f = ''CF32'' then 3 else 0),
      get_sample_size = (\<lambda>k. if k = 1 then 2 else if k = 2 then 4 else if k = 3 then 8 else 0),
      get_sample_full_scale_value =
        (\<lambda>k. if k = 1 then 127.5 else if k = 2 then 32767.5 else if k = 3 then 1 else 0),
      AUTO_GAIN = - 100,
      convert_sample_buffer =
        (\<lambda>s inbuf len outbuf.
           replicate (len div bytes_per_sample s) 1 @ drop (len div bytes_per_sample s) outbuf),
      atof = (\<lambda>v. if v = ''20'' then 20 else if v = ''10'' then 10 else 0),
      double_to_float = (\<lambda>x. x),
      get_do_exit = (\<lambda>w. if 3 \<le> w then 1 else 0),
      put_do_exit = (\<lambda>v w. w),
      SoapySDR_formatToSize =
        (\<lambda>f. if f = ''CU8'' then 2 else if f = ''CS16'' then 4 else if f = ''CF32'' then 16 else 0),
      SoapySDR_errToStr = (\<lambda>rc. ''TIMEOUT''),
      SoapySDRKwargs_fromString =
        (\<lambda>a. if a = ''LNA=20,VGA=10'' then [(''LNA'', ''20''), (''VGA'', ''10'')]
             else if a = ''biastee=true'' then [(''biastee'', ''true'')] else []),
      SoapySDRDevice_enumerate = (\<lambda>w. ([[(''driver'', ''demo'')]], w)),
      SoapySDRDevice_makeStrArgs = (\<lambda>a w. (Some 1, w)),
      SoapySDRDevice_lastError = (\<lambda>w. ''device error''),
      SoapySDRDevice_setSampleRate = (\<lambda>d r w. (0, w)),
      SoapySDRDevice_setFrequency = (\<lambda>d f w. (0, w)),
      SoapySDRDevice_setFrequencyCorrection = (\<lambda>d c w. (0, w)),
      SoapySDRDevice_hasDCOffsetMode = (\<lambda>d w. (True, w)),
      SoapySDRDevice_setDCOffsetMode = (\<lambda>d b w. (0, w)),
      SoapySDRDevice_setGainElement = (\<lambda>d k g w. (0, w)),
      SoapySDRDevice_getGainElement = (\<lambda>d k w. (0, w)),
      SoapySDRDevice_setGain = (\<lambda>d g w. (0, w)),
      SoapySDRDevice_hasGainMode = (\<lambda>d w. (True, w)),
      SoapySDRDevice_setGainMode = (\<lambda>d b w. (0, w)),
      SoapySDRDevice_setAntenna = (\<lambda>d a w. (0, w)),
      SoapySDRDevice_getAntenna = (\<lambda>d w. (''RX'', w)),
      SoapySDRDevice_writeSetting = (\<lambda>d k v w. (0, w)),
      SoapySDRDevice_readSetting = (\<lambda>d k w. (''false'', w)),
      SoapySDRDevice_getNativeStreamFormat = (\<lambda>d w. ((native, fullscale), w)),
      SoapySDRDevice_getStreamFormats = (\<lambda>d w. (formats, w)),
      SoapySDRDevice_setupStream = (\<lambda>d f w. (case f of None \<Rightarrow> None | Some x \<Rightarrow> Some 7, w)),
      SoapySDRDevice_getStreamMTU = (\<lambda>d st w. (2, w)),
      SoapySDRDevice_activateStream = (\<lambda>d st w. (0, w)),
      SoapySDRDevice_readStream =
        (\<lambda>d st inbuf n w. (if w = 0 then (- 1, inbuf) else (1, [1, 2, 3, 4]), Suc w)),
      SoapySDRDevice_deactivateStream = (\<lambda>d st w. (0, w)),
      SoapySDRDevice_closeStream = (\<lambda>d st w. (0, w)),
      SoapySDRDevice_unmake = (\<lambda>d w. (0, w)),
      usleep = (\<lambda>n w. w),
      block_connection_one2one_shutdown = (\<lambda>w. w),
      complex_samples_produce = (\<lambda>outbuf n w. w)\<rparr>"

definition demo_cfg :: input_cfg where
  "demo_cfg =
     \<lparr>source = ''driver=demo'', sample_rate = 250000, centerfreq = 8900000, freq_offset = 0,
      correction = 0, gain_elements = None, gain = - 100, antenna = None,
      device_settings = None\<rparr>"

text \<open>The input as \<^verbatim>\<open>soapysdr_input_create\<close> leaves it: all fields zero.\<close>

definition demo_input :: "(nat, nat) soapysdr_input" where
  "demo_input =
     \<lparr>world = 0, trace = [], cfg_sfmt = 0, input_full_scale = 0, bytes_per_sample = 0,
      max_tu = 0, running = False, sdr = None, stream = None\<rparr>"

text \<open>
  Variants of the device: one whose frequency setter fails, one whose setter of a gain
  element and whose write of a vendor setting fail, one that cannot set up a stream; and
  a configuration with a list of gain elements, a scalar gain and a vendor setting.
\<close>

definition demo_setter_failure_env :: "(nat, nat) env" where
  "demo_setter_failure_env =
     (demo_env ''CS16'' 32768 None)\<lparr>SoapySDRDevice_setFrequency := (\<lambda>d f w. (- 5, w))\<rparr>"

definition demo_ignored_failure_env :: "(nat, nat) env" where
  "demo_ignored_failure_env =
     (demo_env ''CS16'' 32768 None)
       \<lparr>SoapySDRDevice_setGainElement := (\<lambda>d k g w. (- 1, w)),
        SoapySDRDevice_writeSetting := (\<lambda>d k v w. (- 1, w))\<rparr>"

definition demo_elements_cfg :: input_cfg where
  "demo_elements_cfg =
     demo_cfg\<lparr>gain_elements := Some ''LNA=20,VGA=10'', gain := 30,
              device_settings := Some ''biastee=true''\<rparr>"

definition demo_no_stream_env :: "(nat, nat) env" where
  "demo_no_stream_env =
     (demo_env ''CS16'' 32768 None)\<lparr>SoapySDRDevice_setupStream := (\<lambda>d f w. (None, w))\<rparr>"

text \<open>
  A configuration whose two key/value strings parse to no pair, a device without
  automatic gain, and a device whose setters of the overall gain and of the gain mode
  fail.
\<close>

definition demo_unparsable_cfg :: input_cfg where
  "demo_unparsable_cfg = demo_cfg\<lparr>gain_elements := Some ''LNA'', device_settings := Some ''biastee''\<rparr>"

definition demo_no_gain_mode_env :: "(nat, nat) env" where
  "demo_no_gain_mode_env =
     (demo_env ''CS16'' 32768 None)\<lparr>SoapySDRDevice_hasGainMode := (\<lambda>d w. (False, w))\<rparr>"

definition demo_gain_failure_env :: "(nat, nat) env" where
  "demo_gain_failure_env =
     (demo_env ''CS16'' 32768 None)
       \<lparr>SoapySDRDevice_setGain := (\<lambda>d g w. (- 2, w)),
        SoapySDRDevice_setGainMode := (\<lambda>d b w. (- 3, w))\<rparr>"

text \<open>
  A device that reports a positive full scale too small for the type \<^verbatim>\<open>float\<close>: the
  conversion of the \<^verbatim>\<open>double\<close> to \<^verbatim>\<open>float\<close> gives 0 below half the smallest positive
  \<^verbatim>\<open>float\<close>, which is 2 to the power -149.
\<close>

definition demo_underflow_env :: "(nat, nat) env" where
  "demo_underflow_env =
     (demo_env ''CS16'' (1 / 2 ^ 200) (Some [''CU8'']))
       \<lparr>double_to_float := (\<lambda>x. if \<bar>x\<bar> < 1 / 2 ^ 150 then 0 else x)\<rparr>"

subsection \<open>Setter failures\<close>

text \<open>
  The calls of a device setter whose result the driver tests: for a call that came back
  with a result other than 0, the line the driver is to write, still waiting for the
  text of the error. These are the setters of the sample rate, the frequency, the
  frequency correction, the DC offset mode, the overall gain, the gain mode and the
  antenna.
\<close>

fun fatal_setter_failure :: "input_cfg \<Rightarrow> event \<Rightarrow> (string \<Rightarrow> device_report) option" where
  "fatal_setter_failure cfg (Tune (Call_setSampleRate x rc)) =
     (if rc \<noteq> 0 then Some (SetSampleRate_failed (source cfg)) else None)"
| "fatal_setter_failure cfg (Tune (Call_setFrequency x rc)) =
     (if rc \<noteq> 0 then Some (SetFrequency_failed (source cfg)) else None)"
| "fatal_setter_failure cfg (Tune (Call_setFrequencyCorrection x rc)) =
     (if rc \<noteq> 0 then Some (SetFrequencyCorrection_failed (source cfg)) else None)"
| "fatal_setter_failure cfg (Tune (Call_setDCOffsetMode b rc)) =
     (if rc \<noteq> 0 then Some (SetDCOffsetMode_failed (source cfg)) else None)"
| "fatal_setter_failure cfg (Tune (Call_setAntenna a rc)) =
     (if rc \<noteq> 0 then Some (Could_not_select_antenna a) else None)"
| "fatal_setter_failure cfg (Gain (Call_setGain g rc)) =
     (if rc \<noteq> 0 then Some (Could_not_set_gain (source cfg)) else None)"
| "fatal_setter_failure cfg (Gain (Call_setGainMode b rc)) =
     (if rc \<noteq> 0 then Some (Could_not_enable_auto_gain (source cfg)) else None)"
| "fatal_setter_failure cfg e = None"

text \<open>
  The failed calls of any setter of the configuration sequence: the ones above, the setter
  of one gain element and the write of one vendor setting.
\<close>

fun setter_failed :: "event \<Rightarrow> bool" where
  "setter_failed (Tune (Call_setSampleRate x rc)) = (rc \<noteq> 0)"
| "setter_failed (Tune (Call_setFrequency x rc)) = (rc \<noteq> 0)"
| "setter_failed (Tune (Call_setFrequencyCorrection x rc)) = (rc \<noteq> 0)"
| "setter_failed (Tune (Call_setDCOffsetMode b rc)) = (rc \<noteq> 0)"
| "setter_failed (Tune (Call_setAntenna a rc)) = (rc \<noteq> 0)"
| "setter_failed (Tune (Call_writeSetting k v rc)) = (rc \<noteq> 0)"
| "setter_failed (Gain (Call_setGainElement k g rc)) = (rc \<noteq> 0)"
| "setter_failed (Gain (Call_setGain g rc)) = (rc \<noteq> 0)"
| "setter_failed (Gain (Call_setGainMode b rc)) = (rc \<noteq> 0)"
| "setter_failed e = False"

subsection \<open>Invariants of the initialization\<close>

text \<open>
  \<open>quiet cfg s s'\<close>: from \<open>s\<close> to \<open>s'\<close> the fields \<open>sdr\<close> and \<open>stream\<close> have kept
  their values and the trace has grown by events none of which is a failed call of a
  tested setter. \<open>aborted cfg s s'\<close>: the same for the fields, and the trace has grown by
  such events followed by one failed call of a tested setter, the query for the text of
  the error and the line that reports it. \<open>step_ok\<close> is what every block of the
  function guarantees, and \<open>init_flow\<close> is the body of \<open>soapysdr_input_init\<close> as a
  flow.
\<close>

definition quiet :: "input_cfg \<Rightarrow> ('w, 'sf) soapysdr_input \<Rightarrow> ('w, 'sf) soapysdr_input \<Rightarrow> bool" where
  "quiet cfg s s' \<longleftrightarrow>
     sdr s' = sdr s \<and> stream s' = stream s \<and>
     (\<exists>ext. trace s' = trace s @ ext \<and> (\<forall>e\<in>set ext. fatal_setter_failure cfg e = None))"

definition aborted :: "input_cfg \<Rightarrow> ('w, 'sf) soapysdr_input \<Rightarrow> ('w, 'sf) soapysdr_input \<Rightarrow> bool" where
  "aborted cfg s s' \<longleftrightarrow>
     sdr s' = sdr s \<and> stream s' = stream s \<and>
     (\<exists>pre ev msg err.
        trace s' = trace s @ pre @ [ev, Open (Call_lastError err), Stderr (Report (msg err))] \<and>
        (\<forall>e\<in>set pre. fatal_setter_failure cfg e = None) \<and>
        fatal_setter_failure cfg ev = Some msg)"

definition step_ok ::
  "input_cfg \<Rightarrow> ('w, 'sf) soapysdr_input \<Rightarrow> ('w, 'sf) soapysdr_input flow \<Rightarrow> bool" where
  "step_ok cfg s fl \<longleftrightarrow>
     (case fl of
        Next s' \<Rightarrow> quiet cfg s s'
      | Return r s' \<Rightarrow>
          (r = - 1 \<and> (quiet cfg s s' \<or> aborted cfg s s')) \<or>
          (r = 0 \<and> (\<exists>ext. trace s' = trace s @ ext \<and>
                       (\<forall>e\<in>set ext. fatal_setter_failure cfg e = None))))"

definition init_flow ::
  "('w, 'sf) env \<Rightarrow> input_cfg \<Rightarrow> ('w, 'sf) soapysdr_input \<Rightarrow> ('w, 'sf) soapysdr_input flow" where
  "init_flow E cfg s =
     (let s0 = soapysdr_verbose_device_search E s;
          (dev_opt, w1) = SoapySDRDevice_makeStrArgs E (source cfg) (world s0);
          s1 = emit (Open (Call_makeStrArgs (source cfg) dev_opt)) (s0\<lparr>world := w1\<rparr>)
      in case dev_opt of
           None \<Rightarrow> report_failure E (Could_not_open (source cfg)) s1
         | Some dev \<Rightarrow> run_steps (init_steps E cfg dev) s1)"

subsection \<open>Events of the gain block and of the settings block\<close>

text \<open>
  The calls to the device that set or read a gain, and those that write or read a vendor
  setting. \<open>starts_antenna\<close> and \<open>starts_negotiation\<close> recognise the first event of the
  block that follows the gain block (the antenna) and of the one that follows the vendor
  settings (the negotiation of the sample format). \<open>gain_element_events\<close> and
  \<open>setting_events\<close> are the events of the two loops, given what the device returned for
  every pair: the result of the setter and the value read back.
\<close>

fun is_gain_call :: "event \<Rightarrow> bool" where
  "is_gain_call (Gain g) = True"
| "is_gain_call e = False"

fun is_setting_call :: "event \<Rightarrow> bool" where
  "is_setting_call (Tune (Call_writeSetting k v rc)) = True"
| "is_setting_call (Tune (Call_readSetting k v)) = True"
| "is_setting_call e = False"

definition starts_antenna :: "event list \<Rightarrow> bool" where
  "starts_antenna post \<longleftrightarrow>
     (\<exists>a rc rest. post = Tune (Call_setAntenna a rc) # rest) \<or>
     (\<exists>a rest. post = Tune (Call_getAntenna a) # rest)"

definition starts_negotiation :: "event list \<Rightarrow> bool" where
  "starts_negotiation post \<longleftrightarrow>
     (\<exists>fmt fullscale rest. post = Open (Call_getNativeStreamFormat fmt fullscale) # rest)"

definition gain_element_events :: "('w, 'sf) env \<Rightarrow> input_cfg \<Rightarrow> kwargs \<Rightarrow> (int \<times> real) list \<Rightarrow> event list" where
  "gain_element_events E cfg gains results =
     concat (map (\<lambda>((k, v), (rc, gv)).
                   [Gain (Call_setGainElement k (atof E v) rc),
                    Gain (Call_getGainElement k gv),
                    Stderr (Info (Gain_element_set (source cfg) k gv))])
                 (zip gains results))"

definition setting_events :: "input_cfg \<Rightarrow> kwargs \<Rightarrow> (int \<times> string) list \<Rightarrow> event list" where
  "setting_events cfg kvs results =
     concat (map (\<lambda>((k, v), (rc, sv)).
                   [Tune (Call_writeSetting k v rc),
                    Tune (Call_readSetting k sv),
                    Stderr (Info (Setting_result (source cfg) k sv (v = sv)))])
                 (zip kvs results))"

text \<open>
  \<open>calm P s s'\<close>: from \<open>s\<close> to \<open>s'\<close> the trace has grown by events that all satisfy
  \<open>P\<close>. \<open>plain\<close> events are neither gain calls nor setting calls. The lines on stderr
  that end a failed run: the report of a failed call to the device, and the two lines of
  the gain block that do not come from a failed setter. \<open>failed_earlier K C ne r\<close>: the
  run has returned -1, its last event is a line \<open>K\<close>, and none of its events is a call
  \<open>C\<close>; this is a run that ended before the block that makes the calls \<open>C\<close>.
\<close>

definition plain :: "event \<Rightarrow> bool" where
  "plain e \<longleftrightarrow> \<not> is_gain_call e \<and> \<not> is_setting_call e"

definition calm :: "(event \<Rightarrow> bool) \<Rightarrow> ('w, 'sf) soapysdr_input \<Rightarrow> ('w, 'sf) soapysdr_input \<Rightarrow> bool" where
  "calm P s s' \<longleftrightarrow> (\<exists>ext. trace s' = trace s @ ext \<and> (\<forall>e\<in>set ext. P e))"

definition device_error_line :: "event \<Rightarrow> bool" where
  "device_error_line l \<longleftrightarrow> (\<exists>rep. l = Stderr (Report rep))"

definition gain_error_line :: "input_cfg \<Rightarrow> event \<Rightarrow> bool" where
  "gain_error_line cfg l \<longleftrightarrow>
     l = Stderr Unable_to_parse_gains \<or> l = Stderr (No_auto_gain_support (source cfg))"

definition failed_earlier ::
  "(event \<Rightarrow> bool) \<Rightarrow> (event \<Rightarrow> bool) \<Rightarrow> event list \<Rightarrow> int \<Rightarrow> bool" where
  "failed_earlier K C ne r \<longleftrightarrow>
     r = - 1 \<and> ne \<noteq> [] \<and> K (last ne) \<and> (\<forall>e\<in>set ne. \<not> C e)"


subsection \<open>The capture thread\<close>

text \<open>
  The events of the shutdown sequence; the capture state with which the loop is entered
  when the stream has been activated (the two zeroed buffers, and the state after the
  activation and the delay of 100 ms); a device whose stream cannot be activated; and an
  input as a successful \<open>soapysdr_input_init\<close> leaves it.
\<close>

fun is_shutdown :: "event \<Rightarrow> bool" where
  "is_shutdown (Shutdown x) = True"
| "is_shutdown e = False"

definition loop_entry :: "('w, 'sf) env \<Rightarrow> ('w, 'sf) soapysdr_input \<Rightarrow> ('w, 'sf) capture_state" where
  "loop_entry E s =
     (replicate (max_tu s * bytes_per_sample s) 0,
      replicate (max_tu s) 0,
      s\<lparr>world := usleep E 100000
                    (snd (SoapySDRDevice_activateStream E (sdr s) (stream s) (world s))),
        trace := trace s @
          [Capture (Xcalloc Inbuf (max_tu s) (bytes_per_sample s)),
           Capture (Xcalloc Outbuf (max_tu s) 8),
           Capture (Call_activateStream 0),
           Capture (Call_usleep 100000)]\<rparr>)"

definition demo_no_activation_env :: "(nat, nat) env" where
  "demo_no_activation_env =
     (demo_env ''CS16'' 32768 None)\<lparr>SoapySDRDevice_activateStream := (\<lambda>d st w. (- 6, w))\<rparr>"

definition demo_ready_input :: "(nat, nat) soapysdr_input" where
  "demo_ready_input =
     \<lparr>world = 0, trace = [], cfg_sfmt = 2, input_full_scale = 32768, bytes_per_sample = 4,
      max_tu = 2, running = True, sdr = Some 1, stream = Some 7\<rparr>"

text \<open>
  The results of the reads and the counts of the pushes in a list of events, in the order
  of the list; and the relation between them that the loop keeps: the pushes are the
  reads with a result that is not negative, in the same order.
\<close>

fun read_results :: "event list \<Rightarrow> int list" where
  "read_results [] = []"
| "read_results (Capture (Call_readStream m n) # es) = n # read_results es"
| "read_results (e # es) = read_results es"

fun pushed_counts :: "event list \<Rightarrow> nat list" where
  "pushed_counts [] = []"
| "pushed_counts (Capture (Call_complex_samples_produce outbuf k) # es) = k # pushed_counts es"
| "pushed_counts (e # es) = pushed_counts es"

definition pushes_follow_reads :: "event list \<Rightarrow> bool" where
  "pushes_follow_reads ext \<longleftrightarrow>
     pushed_counts ext = map nat (filter (\<lambda>n. 0 \<le> n) (read_results ext))"

section \<open>Properties\<close>

subsection \<open>Evaluation and basic facts\<close>

declare capture_loop.simps [code]

lemmas demo_defs = demo_env_def demo_cfg_def demo_input_def
lemmas choose_defs = soapysdr_choose_sample_format_def native_test_def format_test_def emit_def
lemmas init_defs = soapysdr_input_init_def soapysdr_verbose_device_search_def init_steps_def
  report_failure_def set_sample_rate_def set_frequency_def set_frequency_correction_def
  set_dc_offset_mode_def set_gains_def log_antenna_def set_antenna_def set_device_settings_def
  setup_stream_def

lemmas demo_defs2 = demo_setter_failure_env_def demo_ignored_failure_env_def demo_elements_cfg_def
  demo_no_stream_env_def
lemmas eval_defs = init_defs choose_defs demo_defs demo_defs2 new_events_def Let_def enumerate_eq_zip

lemmas demo_defs3 = demo_unparsable_cfg_def demo_no_gain_mode_env_def demo_gain_failure_env_def

lemma trace_emit: "trace (emit e s) = trace s @ [e]"
  by (simp add: emit_def)

lemma world_emit: "world (emit e s) = world s"
  by (simp add: emit_def)

lemma format_test_fst: "fst (format_test E f r) = format_usable E f"
  by (simp add: format_test_def format_usable_def Let_def)

lemma format_test_snd_usable:
  "format_usable E f \<Longrightarrow> snd (format_test E f r) =
     r\<lparr>sfmt := sample_format_from_string E f, sample_size := SoapySDR_formatToSize E f\<rparr>"
  by (simp add: format_test_def format_usable_def Let_def)

lemma native_test_fst: "fst (native_test E fmt fs r) = native_usable E fmt fs"
  by (auto simp add: native_test_def native_usable_def format_usable_def Let_def)

lemma native_test_snd_usable:
  "native_usable E fmt fs \<Longrightarrow> snd (native_test E fmt fs r) =
     r\<lparr>sfmt := sample_format_from_string E fmt, sample_size := SoapySDR_formatToSize E fmt,
       full_scale := double_to_float E fs\<rparr>"
  by (simp add: native_test_def native_usable_def format_usable_def Let_def)

lemma search_formats_first:
  "\<forall>g\<in>set pre. \<not> format_usable E g \<Longrightarrow> format_usable E f \<Longrightarrow>
   search_formats E src (pre @ f # post) r s =
     (\<lparr>sfmt = sample_format_from_string E f, soapy_sfmt = Some f,
       full_scale = get_sample_full_scale_value E (sample_format_from_string E f),
       sample_size = SoapySDR_formatToSize E f\<rparr>,
      emit (Stderr (Info (Using_non_native_format src f
              (get_sample_full_scale_value E (sample_format_from_string E f))))) s)"
proof (induction pre arbitrary: r)
  case Nil
  obtain r' where t: "format_test E f r = (True, r')"
    using Nil format_test_fst[of E f r] by (cases "format_test E f r") simp
  have "r' = r\<lparr>sfmt := sample_format_from_string E f, sample_size := SoapySDR_formatToSize E f\<rparr>"
    using format_test_snd_usable[of E f r] Nil t by simp
  then show ?case using t by (simp add: Let_def)
next
  case (Cons g pre)
  obtain r' where "format_test E g r = (False, r')"
    using Cons.prems format_test_fst[of E g r] by (cases "format_test E g r") simp
  then show ?case using Cons by simp
qed

lemma search_formats_no_native_log:
  "\<exists>rest. trace (snd (search_formats E src fs r s)) = trace s @ rest \<and> (\<forall>e\<in>set rest. \<not> is_native_log e)"
proof (induction fs arbitrary: r)
  case Nil
  then show ?case by simp
next
  case (Cons f fs)
  show ?case
  proof (cases "format_test E f r")
    case (Pair b r')
    then show ?thesis using Cons[of r'] by (cases b) (auto simp add: Let_def trace_emit is_native_log_def)
  qed
qed

lemma search_formats_none_usable:
  "fs \<noteq> [] \<Longrightarrow> \<forall>g\<in>set fs. \<not> format_usable E g \<Longrightarrow>
   sfmt (fst (search_formats E src fs r s)) = sample_format_from_string E (last fs) \<and>
   soapy_sfmt (fst (search_formats E src fs r s)) = soapy_sfmt r \<and>
   snd (search_formats E src fs r s) = s"
proof (induction fs arbitrary: r)
  case Nil
  then show ?case by simp
next
  case (Cons g fs)
  have ng: "\<not> format_usable E g" using Cons.prems by simp
  obtain r1 where r': "format_test E g r = (False, r1)"
    using ng format_test_fst[of E g r] by (metis prod.collapse)
  have "sfmt (snd (format_test E g r)) = sample_format_from_string E g"
    "soapy_sfmt (snd (format_test E g r)) = soapy_sfmt r"
    by (simp_all add: format_test_def Let_def)
  then have sf: "sfmt r1 = sample_format_from_string E g" "soapy_sfmt r1 = soapy_sfmt r"
    by (simp_all add: r')
  show ?case
  proof (cases "fs = []")
    case True
    then show ?thesis using sf by (simp add: r')
  next
    case False
    then show ?thesis using Cons.IH[of r1] Cons.prems sf by (simp add: r')
  qed
qed

subsection \<open>Every block of the initialization keeps the invariant\<close>

lemma quiet_refl [simp]: "quiet cfg s s"
  by (simp add: quiet_def)

lemma quiet_trans: "quiet cfg s s1 \<Longrightarrow> quiet cfg s1 s2 \<Longrightarrow> quiet cfg s s2"
  by (auto simp add: quiet_def)

lemma quiet_emit [simp]:
  "fatal_setter_failure cfg e = None \<Longrightarrow> quiet cfg s s' \<Longrightarrow> quiet cfg s (emit e s')"
  by (auto simp add: quiet_def emit_def)

lemma quiet_world [simp]: "quiet cfg s (s'\<lparr>world := w\<rparr>) = quiet cfg s s'"
  by (simp add: quiet_def)

lemma quiet_fields [simp]:
  "quiet cfg s (s'\<lparr>cfg_sfmt := a, input_full_scale := b, bytes_per_sample := c\<rparr>) = quiet cfg s s'"
  by (simp add: quiet_def)

lemma quiet_aborted: "quiet cfg s s1 \<Longrightarrow> aborted cfg s1 s2 \<Longrightarrow> aborted cfg s s2"
proof -
  assume q: "quiet cfg s s1" and a: "aborted cfg s1 s2"
  from q obtain ext where e: "trace s1 = trace s @ ext"
    "\<forall>e\<in>set ext. fatal_setter_failure cfg e = None" "sdr s1 = sdr s" "stream s1 = stream s"
    by (auto simp add: quiet_def)
  from a obtain pre ev msg err where
    p: "trace s2 = trace s1 @ pre @ [ev, Open (Call_lastError err), Stderr (Report (msg err))]"
    "\<forall>e\<in>set pre. fatal_setter_failure cfg e = None" "fatal_setter_failure cfg ev = Some msg"
    "sdr s2 = sdr s1" "stream s2 = stream s1"
    by (auto simp add: aborted_def)
  have "trace s2 = trace s @ (ext @ pre) @ [ev, Open (Call_lastError err), Stderr (Report (msg err))]"
    using e p by simp
  moreover have "\<forall>e\<in>set (ext @ pre). fatal_setter_failure cfg e = None"
    using e p by auto
  ultimately show ?thesis
    unfolding aborted_def using p(3,4,5) e(3,4) by metis
qed

lemma step_trans: "quiet cfg s s1 \<Longrightarrow> step_ok cfg s1 fl \<Longrightarrow> step_ok cfg s fl"
proof (cases fl)
  case (Return r s')
  assume q: "quiet cfg s s1" and o: "step_ok cfg s1 fl"
  from q obtain ext where e: "trace s1 = trace s @ ext"
    "\<forall>e\<in>set ext. fatal_setter_failure cfg e = None"
    by (auto simp add: quiet_def)
  have z: "(\<exists>ext. trace s' = trace s1 @ ext \<and> (\<forall>e\<in>set ext. fatal_setter_failure cfg e = None))
     \<Longrightarrow> (\<exists>ext. trace s' = trace s @ ext \<and> (\<forall>e\<in>set ext. fatal_setter_failure cfg e = None))"
    using e by auto
  show ?thesis using o q Return z
    by (auto simp add: step_ok_def dest: quiet_trans quiet_aborted)
next
  case (Next s')
  assume "quiet cfg s s1" and "step_ok cfg s1 fl"
  then show ?thesis using Next by (auto simp add: step_ok_def dest: quiet_trans)
qed

lemma report_failure_after_setter:
  "quiet cfg s s0 \<Longrightarrow> fatal_setter_failure cfg ev = Some msg \<Longrightarrow>
   step_ok cfg s (report_failure E msg (emit ev s0))"
proof -
  assume q: "quiet cfg s s0" and f: "fatal_setter_failure cfg ev = Some msg"
  from q obtain ext where e: "trace s0 = trace s @ ext"
    "\<forall>e\<in>set ext. fatal_setter_failure cfg e = None" "sdr s0 = sdr s" "stream s0 = stream s"
    by (auto simp add: quiet_def)
  have "aborted cfg s (emit (Stderr (Report (msg (SoapySDRDevice_lastError E (world s0)))))
          (emit (Open (Call_lastError (SoapySDRDevice_lastError E (world s0)))) (emit ev s0)))"
    unfolding aborted_def using e f by (auto simp add: emit_def)
  then show ?thesis by (simp add: step_ok_def report_failure_def Let_def world_emit)
qed

lemma report_failure_quiet:
  "quiet cfg s s0 \<Longrightarrow> step_ok cfg s (report_failure E msg s0)"
  by (simp add: step_ok_def report_failure_def Let_def)

lemma set_gain_elements_quiet: "quiet cfg s (set_gain_elements E cfg dev kvs s)"
proof (induction kvs arbitrary: s)
  case Nil
  then show ?case by simp
next
  case (Cons kv kvs)
  obtain k v where kv: "kv = (k, v)" by (cases kv)
  show ?case unfolding kv
    by (auto simp add: Let_def split: prod.splits intro!: quiet_trans[OF _ Cons.IH])
qed

lemma write_settings_quiet: "quiet cfg s (write_settings E cfg dev kvs s)"
proof (induction kvs arbitrary: s)
  case Nil
  then show ?case by simp
next
  case (Cons kv kvs)
  obtain k v where kv: "kv = (k, v)" by (cases kv)
  show ?case unfolding kv
    by (auto simp add: Let_def split: prod.splits intro!: quiet_trans[OF _ Cons.IH])
qed

lemma search_formats_quiet: "quiet cfg s (snd (search_formats E src fs r s))"
proof (induction fs arbitrary: r)
  case Nil
  then show ?case by simp
next
  case (Cons f fs)
  show ?case
  proof (cases "format_test E f r")
    case (Pair b r')
    then show ?thesis using Cons[of r'] by (cases b) (auto simp add: Let_def)
  qed
qed

lemma choose_quiet: "quiet cfg s (snd (soapysdr_choose_sample_format E dev src s))"
proof -
  have "quiet cfg s s0 \<Longrightarrow> quiet cfg s (snd (search_formats E src fs r s0))" for s0 fs r
    by (erule quiet_trans) (rule search_formats_quiet)
  then show ?thesis
    by (auto simp add: soapysdr_choose_sample_format_def Let_def split: prod.splits option.splits bool.splits)
qed

lemma verbose_quiet: "quiet cfg s (soapysdr_verbose_device_search E s)"
proof -
  have kv: "quiet cfg s s0 \<Longrightarrow>
       quiet cfg s (fold (\<lambda>(k, v). emit (Stderr (Info (Device_kv k v)))) kw s0)" for kw s0
    by (induction kw arbitrary: s0) (auto split: prod.splits)
  have dv: "quiet cfg s s0 \<Longrightarrow>
       quiet cfg s (fold (\<lambda>(i, kw) s'.
                 fold (\<lambda>(k, v). emit (Stderr (Info (Device_kv k v)))) kw
                   (emit (Stderr (Info (Found_device i))) s')) xs s0)" for xs s0
  proof (induction xs arbitrary: s0)
    case Nil
    then show ?case by simp
  next
    case (Cons x xs)
    obtain i kw where x: "x = (i, kw)" by (cases x)
    have "quiet cfg s (fold (\<lambda>(k, v). emit (Stderr (Info (Device_kv k v)))) kw
                   (emit (Stderr (Info (Found_device i))) s0))"
      using Cons.prems by (intro kv) simp
    then show ?case unfolding x using Cons.IH by simp
  qed
  show ?thesis
    by (auto simp add: soapysdr_verbose_device_search_def Let_def split: prod.splits intro!: dv)
qed

lemma set_sample_rate_ok: "step_ok cfg s (set_sample_rate E cfg dev s)"
  by (auto simp add: set_sample_rate_def Let_def split: prod.splits
      intro!: report_failure_after_setter) (simp add: step_ok_def)

lemma set_frequency_ok: "step_ok cfg s (set_frequency E cfg dev s)"
  by (auto simp add: set_frequency_def Let_def split: prod.splits
      intro!: report_failure_after_setter) (simp add: step_ok_def)

lemma set_frequency_correction_ok: "step_ok cfg s (set_frequency_correction E cfg dev s)"
  by (auto simp add: set_frequency_correction_def Let_def split: prod.splits
      intro!: report_failure_after_setter) (simp add: step_ok_def)

lemma set_dc_offset_mode_ok: "step_ok cfg s (set_dc_offset_mode E cfg dev s)"
  by (auto simp add: set_dc_offset_mode_def Let_def split: prod.splits
      intro!: report_failure_after_setter) (simp_all add: step_ok_def)

lemma set_gains_ok: "step_ok cfg s (set_gains E cfg dev s)"
  by (auto simp add: set_gains_def Let_def split: prod.splits option.splits
      intro!: report_failure_after_setter) (simp_all add: step_ok_def set_gain_elements_quiet)

lemma log_antenna_ok: "quiet cfg s s0 \<Longrightarrow> step_ok cfg s (log_antenna E cfg dev s0)"
  by (auto simp add: log_antenna_def Let_def step_ok_def split: prod.splits)

lemma set_antenna_ok: "step_ok cfg s (set_antenna E cfg dev s)"
  by (auto simp add: set_antenna_def Let_def split: prod.splits option.splits
      intro!: report_failure_after_setter log_antenna_ok)

lemma set_device_settings_ok: "step_ok cfg s (set_device_settings E cfg dev s)"
  by (auto simp add: set_device_settings_def Let_def step_ok_def write_settings_quiet
      split: prod.splits option.splits)


lemma setup_stream_ok: "step_ok cfg s (setup_stream E cfg dev s)"
proof -
  obtain chosen s1 where c: "soapysdr_choose_sample_format E dev (source cfg) s = (chosen, s1)"
    by (cases "soapysdr_choose_sample_format E dev (source cfg) s")
  have q: "quiet cfg s s1" using choose_quiet[of cfg s E dev "source cfg"] c by simp
  show ?thesis
  proof (cases "sfmt chosen = SFMT_UNDEF E")
    case True
    then show ?thesis using q by (simp add: setup_stream_def c step_ok_def)
  next
    case False
    define s2 where "s2 = s1\<lparr>cfg_sfmt := sfmt chosen, input_full_scale := full_scale chosen,
                     bytes_per_sample := sample_size chosen\<rparr>"
    obtain strm w3 where st: "SoapySDRDevice_setupStream E dev (soapy_sfmt chosen) (world s1) = (strm, w3)"
      by (cases "SoapySDRDevice_setupStream E dev (soapy_sfmt chosen) (world s1)")
    define s3 where "s3 = emit (Open (Call_setupStream (soapy_sfmt chosen) strm)) (s2\<lparr>world := w3\<rparr>)"
    have q3: "quiet cfg s s3" using q by (simp add: s3_def s2_def)
    show ?thesis
    proof (cases strm)
      case None
      have "setup_stream E cfg dev s = report_failure E (Could_not_set_up_stream (source cfg)) s3"
        using False st None by (simp add: setup_stream_def c Let_def s2_def s3_def)
      then show ?thesis using report_failure_quiet[OF q3] by simp
    next
      case (Some x)
      obtain mtu w4 where m: "SoapySDRDevice_getStreamMTU E dev x w3 = (mtu, w4)"
        by (cases "SoapySDRDevice_getStreamMTU E dev x w3")
      define s4 where "s4 = emit (Open (Call_getStreamMTU mtu)) (s3\<lparr>world := w4\<rparr>)"
      have q4: "quiet cfg s s4" using q3 by (simp add: s4_def)
      have "setup_stream E cfg dev s = Return 0 (s4\<lparr>max_tu := mtu, sdr := Some dev, stream := Some x\<rparr>)"
        using False st Some m
        by (simp add: setup_stream_def c Let_def s2_def s3_def s4_def world_emit)
      then show ?thesis using q4 by (auto simp add: step_ok_def quiet_def)
    qed
  qed
qed

lemma run_steps_ok:
  "(\<And>f s. f \<in> set fs \<Longrightarrow> step_ok cfg s (f s)) \<Longrightarrow> step_ok cfg s (run_steps fs s)"
proof (induction fs arbitrary: s)
  case Nil
  then show ?case by (simp add: step_ok_def)
next
  case (Cons f fs)
  have h: "step_ok cfg s (f s)" using Cons.prems by simp
  show ?case
  proof (cases "f s")
    case (Return r s')
    then show ?thesis using h by simp
  next
    case (Next s')
    then have "quiet cfg s s'" using h by (simp add: step_ok_def)
    moreover have "step_ok cfg s' (run_steps fs s')" using Cons by simp
    ultimately show ?thesis using Next by (simp add: step_trans)
  qed
qed

lemma init_steps_ok: "f \<in> set (init_steps E cfg dev) \<Longrightarrow> step_ok cfg s (f s)"
  unfolding init_steps_def
  using set_sample_rate_ok set_frequency_ok set_frequency_correction_ok set_dc_offset_mode_ok
    set_gains_ok set_antenna_ok set_device_settings_ok setup_stream_ok
  by auto

lemma init_flow_ok: "step_ok cfg s (init_flow E cfg s)"
proof -
  define s0 where "s0 = soapysdr_verbose_device_search E s"
  obtain dev_opt w1 where m: "SoapySDRDevice_makeStrArgs E (source cfg) (world s0) = (dev_opt, w1)"
    by (cases "SoapySDRDevice_makeStrArgs E (source cfg) (world s0)")
  define s1 where "s1 = emit (Open (Call_makeStrArgs (source cfg) dev_opt)) (s0\<lparr>world := w1\<rparr>)"
  have q: "quiet cfg s s1"
    using verbose_quiet[of cfg s E] by (simp add: s1_def s0_def)
  have "init_flow E cfg s =
     (case dev_opt of None \<Rightarrow> report_failure E (Could_not_open (source cfg)) s1
      | Some dev \<Rightarrow> run_steps (init_steps E cfg dev) s1)"
    using m by (cases dev_opt) (simp_all add: init_flow_def Let_def s0_def s1_def)
  moreover have "step_ok cfg s (report_failure E (Could_not_open (source cfg)) s1)"
    using q by (rule report_failure_quiet)
  moreover have "step_ok cfg s (run_steps (init_steps E cfg dev) s1)" for dev
    using q by (rule step_trans) (rule run_steps_ok, rule init_steps_ok)
  ultimately show ?thesis by (cases dev_opt) simp_all
qed

lemma init_as_flow:
  "soapysdr_input_init E cfg s =
     (case init_flow E cfg s of Return r s' \<Rightarrow> (r, s') | Next s' \<Rightarrow> (0, s'))"
  by (simp add: soapysdr_input_init_def init_flow_def Let_def split: prod.splits)

lemma unique_failure_position:
  assumes "pre @ ev # post = pre' @ [ev', l, r]"
    and "P ev" and "\<forall>e\<in>set pre'. \<not> P e" and "\<not> P l" and "\<not> P r"
  shows "ev = ev' \<and> post = [l, r]"
  using assms
proof (induction pre arbitrary: pre')
  case Nil
  then show ?case by (cases pre') auto
next
  case (Cons a pre)
  show ?case
  proof (cases pre')
    case Nil
    then show ?thesis using Cons.prems
      by (auto simp add: Cons_eq_append_conv append_eq_Cons_conv)
  next
    case (Cons b pre'')
    then show ?thesis using Cons.prems Cons.IH[of pre''] by auto
  qed
qed

lemma early_steps_never_succeed:
  "set_sample_rate E cfg dev s = Return r s' \<Longrightarrow> r = - 1"
  "set_frequency E cfg dev s = Return r s' \<Longrightarrow> r = - 1"
  "set_frequency_correction E cfg dev s = Return r s' \<Longrightarrow> r = - 1"
  "set_dc_offset_mode E cfg dev s = Return r s' \<Longrightarrow> r = - 1"
  "set_gains E cfg dev s = Return r s' \<Longrightarrow> r = - 1"
  "set_antenna E cfg dev s = Return r s' \<Longrightarrow> r = - 1"
  "set_device_settings E cfg dev s = Return r s' \<Longrightarrow> r = - 1"
  by (auto simp add: set_sample_rate_def set_frequency_def set_frequency_correction_def
      set_dc_offset_mode_def set_gains_def set_antenna_def log_antenna_def set_device_settings_def
      report_failure_def Let_def split: prod.splits option.splits if_splits)

lemma run_steps_reaches_failure:
  assumes "\<And>f s r s'. f \<in> set pre \<Longrightarrow> f s = Return r s' \<Longrightarrow> r = - 1"
    and "\<And>s. \<exists>s'. g s = Return (- 1) s'"
  shows "\<exists>s'. run_steps (pre @ g # post) s = Return (- 1) s'"
  using assms(1)
proof (induction pre arbitrary: s)
  case Nil
  obtain s' where "g s = Return (- 1) s'" using assms(2) by blast
  then show ?case by simp
next
  case (Cons f pre)
  show ?case
  proof (cases "f s")
    case (Return r s')
    then have "r = - 1" using Cons.prems[of f s r s'] by simp
    then show ?thesis using Return by simp
  next
    case (Next s')
    have "\<exists>s''. run_steps (pre @ g # post) s' = Return (- 1) s''"
    proof (rule Cons.IH)
      fix f' s r s'
      assume "f' \<in> set pre" and "f' s = Return r s'"
      then show "r = - 1" using Cons.prems[of f' s r s'] by simp
    qed
    then show ?thesis using Next by simp
  qed
qed

lemma init_fails_if_step_fails:
  assumes "\<And>dev. init_steps E cfg dev = pre dev @ g dev # post dev"
    and "\<And>dev f s r s'. f \<in> set (pre dev) \<Longrightarrow> f s = Return r s' \<Longrightarrow> r = - 1"
    and "\<And>dev s. \<exists>s'. g dev s = Return (- 1) s'"
  shows "fst (soapysdr_input_init E cfg s) = - 1"
proof -
  have "\<exists>s'. init_flow E cfg s = Return (- 1) s'"
  proof -
    have "\<exists>s'. run_steps (init_steps E cfg dev) s1 = Return (- 1) s'" for dev s1
      unfolding assms(1) using assms(2,3) by (intro run_steps_reaches_failure) blast+
    then show ?thesis
      by (auto simp add: init_flow_def report_failure_def Let_def split: prod.splits option.splits)
  qed
  then show ?thesis by (auto simp add: init_as_flow)
qed

subsection \<open>Gain elements, the loop and the shutdown sequence\<close>

lemma set_gain_elements_events:
  "\<exists>results. length results = length gains \<and>
     trace (set_gain_elements E cfg dev gains s) = trace s @
       concat (map (\<lambda>((k, v), (rc, gv)).
                 [Gain (Call_setGainElement k (atof E v) rc),
                  Gain (Call_getGainElement k gv),
                  Stderr (Info (Gain_element_set (source cfg) k gv))])
               (zip gains results))"
proof (induction gains arbitrary: s)
  case Nil
  then show ?case by simp
next
  case (Cons kv gains)
  obtain k v where kv: "kv = (k, v)" by (cases kv)
  obtain rc w1 where a: "SoapySDRDevice_setGainElement E dev k (atof E v) (world s) = (rc, w1)"
    by (cases "SoapySDRDevice_setGainElement E dev k (atof E v) (world s)")
  obtain gv w2 where b: "SoapySDRDevice_getGainElement E dev k w1 = (gv, w2)"
    by (cases "SoapySDRDevice_getGainElement E dev k w1")
  define s3 where "s3 = emit (Stderr (Info (Gain_element_set (source cfg) k gv)))
     (emit (Gain (Call_getGainElement k gv))
       (emit (Gain (Call_setGainElement k (atof E v) rc)) (s\<lparr>world := w1\<rparr>)\<lparr>world := w2\<rparr>))"
  have t3: "trace s3 = trace s @ [Gain (Call_setGainElement k (atof E v) rc),
                  Gain (Call_getGainElement k gv),
                  Stderr (Info (Gain_element_set (source cfg) k gv))]"
    by (simp add: s3_def emit_def)
  have step: "set_gain_elements E cfg dev (kv # gains) s = set_gain_elements E cfg dev gains s3"
    by (simp add: kv a b Let_def world_emit s3_def)
  from Cons.IH[of s3] obtain results where r: "length results = length gains"
    "trace (set_gain_elements E cfg dev gains s3) = trace s3 @
       concat (map (\<lambda>((k, v), (rc, gv)).
                 [Gain (Call_setGainElement k (atof E v) rc),
                  Gain (Call_getGainElement k gv),
                  Stderr (Info (Gain_element_set (source cfg) k gv))])
               (zip gains results))"
    by blast
  show ?case unfolding step
    by (rule exI[of _ "(rc, gv) # results"]) (simp add: r t3 kv)
qed

lemma shutdown_events:
  "\<exists>r1 r2 r3. trace (shutdown E s) = trace s @
     [Shutdown (Call_deactivateStream r1), Shutdown (Call_closeStream r2),
      Shutdown (Call_unmake r3), Shutdown Call_block_connection_one2one_shutdown,
      Shutdown (Set_running False), Shutdown (Xfree Inbuf), Shutdown (Xfree Outbuf)]"
  by (simp add: shutdown_def emit_def Let_def split: prod.splits)

lemma shutdown_running: "running (shutdown E s) = False"
  by (simp add: shutdown_def emit_def Let_def split: prod.splits)

lemma capture_iteration_events:
  "\<exists>ext. trace (snd (snd (capture_iteration E cfg c))) = trace (snd (snd c)) @ ext \<and>
         (\<forall>e\<in>set ext. \<not> is_shutdown e)"
  by (cases c) (auto simp add: capture_iteration_def emit_def Let_def split: prod.splits)

lemma capture_loop_events:
  assumes "capture_loop E cfg c = Some s'"
  shows "\<exists>ext. trace s' = trace (snd (snd c)) @ ext \<and> (\<forall>e\<in>set ext. \<not> is_shutdown e)"
  using assms
proof (induction rule: capture_loop.raw_induct[rotated 1, consumes 1])
  case (1 loop E cfg c s')
  show ?case
  proof (cases "get_do_exit E (world (snd (snd c))) = 0")
    case True
    then have "loop E cfg (capture_iteration E cfg c) = Some s'" using 1(2) by simp
    then obtain ext where e: "trace s' = trace (snd (snd (capture_iteration E cfg c))) @ ext"
      "\<forall>e\<in>set ext. \<not> is_shutdown e" using 1(1) by blast
    obtain ext0 where e0: "trace (snd (snd (capture_iteration E cfg c))) = trace (snd (snd c)) @ ext0"
      "\<forall>e\<in>set ext0. \<not> is_shutdown e" using capture_iteration_events by blast
    have "trace s' = trace (snd (snd c)) @ (ext0 @ ext)" using e e0 by simp
    moreover have "\<forall>e\<in>set (ext0 @ ext). \<not> is_shutdown e" using e e0 by auto
    ultimately show ?thesis by blast
  next
    case False
    then have "s' = snd (snd c)" using 1(2) by simp
    then show ?thesis by simp
  qed
qed

lemma capture_loop_returns:
  "(\<forall>k<n. get_do_exit E (world (snd (snd ((capture_iteration E cfg ^^ k) c)))) = 0) \<Longrightarrow>
   get_do_exit E (world (snd (snd ((capture_iteration E cfg ^^ n) c)))) \<noteq> 0 \<Longrightarrow>
   capture_loop E cfg c = Some (snd (snd ((capture_iteration E cfg ^^ n) c)))"
proof (induction n arbitrary: c)
  case 0
  then show ?case by (subst capture_loop.simps) simp
next
  case (Suc n)
  have z: "get_do_exit E (world (snd (snd c))) = 0" using Suc.prems(1)[rule_format, of 0] by simp
  have "capture_loop E cfg (capture_iteration E cfg c) =
      Some (snd (snd ((capture_iteration E cfg ^^ n) (capture_iteration E cfg c))))"
  proof (rule Suc.IH)
    show "\<forall>k<n. get_do_exit E (world (snd (snd ((capture_iteration E cfg ^^ k) (capture_iteration E cfg c))))) = 0"
    proof (intro allI impI)
      fix k assume "k < n"
      then have "Suc k < Suc n" by simp
      then show "get_do_exit E (world (snd (snd ((capture_iteration E cfg ^^ k) (capture_iteration E cfg c))))) = 0"
        using Suc.prems(1)[rule_format, of "Suc k"] by (simp add: funpow_swap1)
    qed
    show "get_do_exit E (world (snd (snd ((capture_iteration E cfg ^^ n) (capture_iteration E cfg c))))) \<noteq> 0"
      using Suc.prems(2) by (simp add: funpow_swap1)
  qed
  then show ?case using z by (subst capture_loop.simps) (simp add: funpow_swap1)
qed

lemma thread_activation_failure:
  assumes "SoapySDRDevice_activateStream E (sdr s) (stream s) (world s) = (rc, w)" and "rc \<noteq> 0"
  shows "soapysdr_input_thread E cfg s =
     Some (shutdown E (s\<lparr>world := put_do_exit E 1 w,
        trace := trace s @
          [Capture (Xcalloc Inbuf (max_tu s) (bytes_per_sample s)),
           Capture (Xcalloc Outbuf (max_tu s) 8),
           Capture (Call_activateStream rc),
           Stderr (Failed_to_activate_stream (source cfg) (SoapySDR_errToStr E rc)),
           Capture (Set_do_exit 1)]\<rparr>))"
  using assms by (simp add: soapysdr_input_thread_def emit_def Let_def)

lemma thread_activated:
  assumes "fst (SoapySDRDevice_activateStream E (sdr s) (stream s) (world s)) = 0"
  shows "soapysdr_input_thread E cfg s =
     (case capture_loop E cfg (loop_entry E s) of None \<Rightarrow> None | Some s5 \<Rightarrow> Some (shutdown E s5))"
  using assms
  by (cases "SoapySDRDevice_activateStream E (sdr s) (stream s) (world s)")
     (simp add: soapysdr_input_thread_def loop_entry_def emit_def Let_def)

lemma read_results_append: "read_results (xs @ ys) = read_results xs @ read_results ys"
  by (induction xs rule: read_results.induct) simp_all

lemma pushed_counts_append: "pushed_counts (xs @ ys) = pushed_counts xs @ pushed_counts ys"
  by (induction xs rule: pushed_counts.induct) simp_all

lemma pushes_follow_reads_append:
  "pushes_follow_reads xs \<Longrightarrow> pushes_follow_reads ys \<Longrightarrow> pushes_follow_reads (xs @ ys)"
  by (simp add: pushes_follow_reads_def read_results_append pushed_counts_append)

lemma capture_iteration_pushes:
  "\<exists>ext. trace (snd (snd (capture_iteration E cfg c))) = trace (snd (snd c)) @ ext \<and>
         pushes_follow_reads ext"
  by (cases c)
     (auto simp add: capture_iteration_def emit_def Let_def pushes_follow_reads_def
        split: prod.splits)

lemma capture_loop_pushes:
  assumes "capture_loop E cfg c = Some s'"
  shows "\<exists>ext. trace s' = trace (snd (snd c)) @ ext \<and> pushes_follow_reads ext"
  using assms
proof (induction rule: capture_loop.raw_induct[rotated 1, consumes 1])
  case (1 loop E cfg c s')
  show ?case
  proof (cases "get_do_exit E (world (snd (snd c))) = 0")
    case True
    then have "loop E cfg (capture_iteration E cfg c) = Some s'" using 1(2) by simp
    then obtain ext where e: "trace s' = trace (snd (snd (capture_iteration E cfg c))) @ ext"
      "pushes_follow_reads ext" using 1(1) by blast
    obtain ext0 where e0: "trace (snd (snd (capture_iteration E cfg c))) = trace (snd (snd c)) @ ext0"
      "pushes_follow_reads ext0" using capture_iteration_pushes by blast
    have "trace s' = trace (snd (snd c)) @ (ext0 @ ext)" using e e0 by simp
    moreover have "pushes_follow_reads (ext0 @ ext)"
      using e e0 by (simp add: pushes_follow_reads_append)
    ultimately show ?thesis by blast
  next
    case False
    then have "s' = snd (snd c)" using 1(2) by simp
    then show ?thesis by (simp add: pushes_follow_reads_def)
  qed
qed

text \<open>A run of the thread on the demo device: the flag is seen set after three reads.\<close>

lemma demo_world_iteration:
  "world (snd (snd (capture_iteration (demo_env a b f) cfg c))) = Suc (world (snd (snd c)))"
  by (cases c) (simp add: capture_iteration_def demo_env_def emit_def Let_def split: prod.splits)

lemma demo_world_funpow:
  "world (snd (snd ((capture_iteration (demo_env a b f) cfg ^^ k) c))) = world (snd (snd c)) + k"
  by (induction k) (simp_all add: demo_world_iteration)

lemma demo_cancelled_after_three:
  "fst (SoapySDRDevice_activateStream (demo_env a b f) (sdr demo_ready_input) (stream demo_ready_input)
          (world demo_ready_input)) = 0 \<and>
   (\<forall>k<3. get_do_exit (demo_env a b f)
      (world (snd (snd ((capture_iteration (demo_env a b f) demo_cfg ^^ k)
                          (loop_entry (demo_env a b f) demo_ready_input))))) = 0) \<and>
   get_do_exit (demo_env a b f)
      (world (snd (snd ((capture_iteration (demo_env a b f) demo_cfg ^^ 3)
                          (loop_entry (demo_env a b f) demo_ready_input))))) \<noteq> 0"
proof -
  have w: "world (snd (snd (loop_entry (demo_env a b f) demo_ready_input))) = 0"
    by (simp add: loop_entry_def demo_env_def demo_ready_input_def)
  have g: "get_do_exit (demo_env a b f) k = (if 3 \<le> k then 1 else 0)" for k
    by (simp add: demo_env_def)
  have "fst (SoapySDRDevice_activateStream (demo_env a b f) (sdr demo_ready_input)
          (stream demo_ready_input) (world demo_ready_input)) = 0"
    by (simp add: demo_env_def)
  then show ?thesis by (simp add: demo_world_funpow w g)
qed

lemma demo_thread_run:
  "soapysdr_input_thread (demo_env ''CS16'' 32768 None) demo_cfg demo_ready_input =
   Some \<lparr>world = 3,
     trace =
       [Capture (Xcalloc Inbuf 2 4), Capture (Xcalloc Outbuf 2 8),
        Capture (Call_activateStream 0), Capture (Call_usleep 100000),
        Capture (Call_readStream 2 (- 1)),
        Stderr (ReadStream_failed ''driver=demo'' ''TIMEOUT''),
        Capture (Call_readStream 2 1),
        Capture (Call_convert_sample_buffer [1, 2, 3, 4] 4),
        Capture (Call_complex_samples_produce [1, 0] 1),
        Capture (Call_readStream 2 1),
        Capture (Call_convert_sample_buffer [1, 2, 3, 4] 4),
        Capture (Call_complex_samples_produce [1, 0] 1),
        Shutdown (Call_deactivateStream 0), Shutdown (Call_closeStream 0),
        Shutdown (Call_unmake 0),
        Shutdown Call_block_connection_one2one_shutdown,
        Shutdown (Set_running False), Shutdown (Xfree Inbuf),
        Shutdown (Xfree Outbuf)],
     cfg_sfmt = 2, input_full_scale = 32768, bytes_per_sample = 4,
     max_tu = 2, running = False, sdr = Some 1, stream = Some 7\<rparr>"
  by (simp add: soapysdr_input_thread_def capture_loop.simps capture_iteration_def shutdown_def
      demo_env_def demo_cfg_def demo_ready_input_def emit_def Let_def)

subsection \<open>The run of the initialization around one block\<close>

text \<open>
  The events of a run of \<open>soapysdr_input_init\<close> are split at a block: either the run has
  ended before the block, with -1 and the line of the step that failed, or the block is
  entered in a state whose events so far contain none of the calls of the block, and the
  run is what the block returns, followed by the events of the blocks after it.
\<close>

lemma calm_refl [simp]: "calm P s s"
  by (simp add: calm_def)

lemma calm_trans: "calm P s s1 \<Longrightarrow> calm P s1 s2 \<Longrightarrow> calm P s s2"
  by (auto simp add: calm_def)

lemma calm_mono: "calm P s s' \<Longrightarrow> (\<And>e. P e \<Longrightarrow> Q e) \<Longrightarrow> calm Q s s'"
  by (auto simp add: calm_def)

lemma calm_emit [simp]: "P e \<Longrightarrow> calm P s s' \<Longrightarrow> calm P s (emit e s')"
  by (auto simp add: calm_def emit_def)

lemma calm_world [simp]: "calm P s (s'\<lparr>world := w\<rparr>) = calm P s s'"
  by (simp add: calm_def)

lemma calm_fields [simp]:
  "calm P s (s'\<lparr>cfg_sfmt := a, input_full_scale := b, bytes_per_sample := c\<rparr>) = calm P s s'"
  by (simp add: calm_def)

lemma calm_handles [simp]:
  "calm P s (s'\<lparr>max_tu := a, sdr := b, stream := c\<rparr>) = calm P s s'"
  by (simp add: calm_def)

lemma set_gain_elements_calm:
  "calm (\<lambda>e. \<not> is_setting_call e) s (set_gain_elements E cfg dev kvs s)"
proof (induction kvs arbitrary: s)
  case Nil
  then show ?case by simp
next
  case (Cons kv kvs)
  obtain k v where kv: "kv = (k, v)" by (cases kv)
  show ?case unfolding kv
    by (auto simp add: Let_def split: prod.splits intro!: calm_trans[OF _ Cons.IH])
qed

lemma write_settings_calm:
  "calm (\<lambda>e. \<not> is_gain_call e) s (write_settings E cfg dev kvs s)"
proof (induction kvs arbitrary: s)
  case Nil
  then show ?case by simp
next
  case (Cons kv kvs)
  obtain k v where kv: "kv = (k, v)" by (cases kv)
  show ?case unfolding kv
    by (auto simp add: Let_def split: prod.splits intro!: calm_trans[OF _ Cons.IH])
qed

lemma search_formats_calm: "calm plain s (snd (search_formats E src fs r s))"
proof (induction fs arbitrary: r)
  case Nil
  then show ?case by simp
next
  case (Cons f fs)
  show ?case
  proof (cases "format_test E f r")
    case (Pair b r')
    then show ?thesis using Cons[of r'] by (cases b) (auto simp add: Let_def plain_def)
  qed
qed

lemma choose_calm: "calm plain s (snd (soapysdr_choose_sample_format E dev src s))"
proof -
  have "calm plain s s0 \<Longrightarrow> calm plain s (snd (search_formats E src fs r s0))" for s0 fs r
    by (erule calm_trans) (rule search_formats_calm)
  then show ?thesis
    by (auto simp add: soapysdr_choose_sample_format_def Let_def plain_def
        split: prod.splits option.splits bool.splits)
qed

lemma verbose_calm: "calm plain s (soapysdr_verbose_device_search E s)"
proof -
  have kv: "calm plain s s0 \<Longrightarrow>
       calm plain s (fold (\<lambda>(k, v). emit (Stderr (Info (Device_kv k v)))) kw s0)" for kw s0
    by (induction kw arbitrary: s0) (auto simp add: plain_def split: prod.splits)
  have dv: "calm plain s s0 \<Longrightarrow>
       calm plain s (fold (\<lambda>(i, kw) s'.
                 fold (\<lambda>(k, v). emit (Stderr (Info (Device_kv k v)))) kw
                   (emit (Stderr (Info (Found_device i))) s')) xs s0)" for xs s0
  proof (induction xs arbitrary: s0)
    case Nil
    then show ?case by simp
  next
    case (Cons x xs)
    obtain i kw where x: "x = (i, kw)" by (cases x)
    have "calm plain s (fold (\<lambda>(k, v). emit (Stderr (Info (Device_kv k v)))) kw
                   (emit (Stderr (Info (Found_device i))) s0))"
    proof (rule kv)
      have "plain (Stderr (Info (Found_device i)))" by (simp add: plain_def)
      then show "calm plain s (emit (Stderr (Info (Found_device i))) s0)"
        using Cons.prems by (rule calm_emit)
    qed
    then show ?case unfolding x using Cons.IH by simp
  qed
  show ?thesis
    by (auto simp add: soapysdr_verbose_device_search_def Let_def plain_def
        split: prod.splits intro!: dv)
qed

lemma report_failure_calm:
  "calm plain s s0 \<Longrightarrow> calm plain s (flow_state (report_failure E msg s0))"
  by (simp add: report_failure_def Let_def plain_def)

lemma plain_steps_calm:
  "calm plain s (flow_state (set_sample_rate E cfg dev s))"
  "calm plain s (flow_state (set_frequency E cfg dev s))"
  "calm plain s (flow_state (set_frequency_correction E cfg dev s))"
  "calm plain s (flow_state (set_dc_offset_mode E cfg dev s))"
  "calm plain s (flow_state (set_antenna E cfg dev s))"
  by (auto simp add: set_sample_rate_def set_frequency_def set_frequency_correction_def
      set_dc_offset_mode_def set_antenna_def log_antenna_def report_failure_def Let_def plain_def
      split: prod.splits option.splits)

lemma setup_stream_calm: "calm plain s (flow_state (setup_stream E cfg dev s))"
proof -
  obtain chosen s1 where c: "soapysdr_choose_sample_format E dev (source cfg) s = (chosen, s1)"
    by (cases "soapysdr_choose_sample_format E dev (source cfg) s")
  have q: "calm plain s s1" using choose_calm[of s E dev "source cfg"] c by simp
  show ?thesis
    using q
    by (auto simp add: setup_stream_def c report_failure_def Let_def plain_def
        split: prod.splits option.splits)
qed

lemma set_gains_calm: "calm (\<lambda>e. \<not> is_setting_call e) s (flow_state (set_gains E cfg dev s))"
  by (auto simp add: set_gains_def report_failure_def Let_def set_gain_elements_calm
      split: prod.splits option.splits)

lemma set_device_settings_calm:
  "calm (\<lambda>e. \<not> is_gain_call e) s (flow_state (set_device_settings E cfg dev s))"
  by (auto simp add: set_device_settings_def Let_def write_settings_calm split: option.splits)

lemma run_steps_append:
  "run_steps (fs @ gs) s =
     (case run_steps fs s of Return r s' \<Rightarrow> Return r s' | Next s' \<Rightarrow> run_steps gs s')"
  by (induction fs arbitrary: s) (auto split: flow.splits)

lemma run_steps_calm:
  "(\<And>f s. f \<in> set fs \<Longrightarrow> calm P s (flow_state (f s))) \<Longrightarrow> calm P s (flow_state (run_steps fs s))"
proof (induction fs arbitrary: s)
  case Nil
  then show ?case by simp
next
  case (Cons f fs)
  have h: "calm P s (flow_state (f s))" using Cons.prems by simp
  show ?case
  proof (cases "f s")
    case (Return r s')
    then show ?thesis using h by simp
  next
    case (Next s')
    have "calm P s' (flow_state (run_steps fs s'))" using Cons by simp
    then show ?thesis using Next h by (auto intro: calm_trans)
  qed
qed

lemma run_steps_failure_line:
  assumes "\<And>f s r s'. f \<in> set fs \<Longrightarrow> f s = Return r s' \<Longrightarrow>
             r = - 1 \<and> trace s' \<noteq> [] \<and> K (last (trace s'))"
    and "run_steps fs s = Return r s'"
  shows "r = - 1 \<and> trace s' \<noteq> [] \<and> K (last (trace s'))"
  using assms
proof (induction fs arbitrary: s)
  case Nil
  then show ?case by simp
next
  case (Cons f fs)
  show ?case
  proof (cases "f s")
    case (Return r0 s0)
    then have "r0 = r" "s0 = s'" using Cons.prems(2) by simp_all
    then show ?thesis using Cons.prems(1)[of f s r s'] Return by simp
  next
    case (Next s1)
    then have "run_steps fs s1 = Return r s'" using Cons.prems(2) by simp
    moreover have "\<And>f s r s'. f \<in> set fs \<Longrightarrow> f s = Return r s' \<Longrightarrow>
             r = - 1 \<and> trace s' \<noteq> [] \<and> K (last (trace s'))"
      using Cons.prems(1) by (meson list.set_intros(2))
    ultimately show ?thesis using Cons.IH by blast
  qed
qed

lemma report_failure_line:
  "report_failure E msg s = Return r s' \<Longrightarrow>
   r = - 1 \<and> trace s' \<noteq> [] \<and> (\<exists>rep. last (trace s') = Stderr (Report rep))"
  by (auto simp add: report_failure_def Let_def emit_def)

lemma tested_steps_failure_line:
  "set_sample_rate E cfg dev s = Return r s' \<Longrightarrow>
     r = - 1 \<and> trace s' \<noteq> [] \<and> (\<exists>rep. last (trace s') = Stderr (Report rep))"
  "set_frequency E cfg dev s = Return r s' \<Longrightarrow>
     r = - 1 \<and> trace s' \<noteq> [] \<and> (\<exists>rep. last (trace s') = Stderr (Report rep))"
  "set_frequency_correction E cfg dev s = Return r s' \<Longrightarrow>
     r = - 1 \<and> trace s' \<noteq> [] \<and> (\<exists>rep. last (trace s') = Stderr (Report rep))"
  "set_dc_offset_mode E cfg dev s = Return r s' \<Longrightarrow>
     r = - 1 \<and> trace s' \<noteq> [] \<and> (\<exists>rep. last (trace s') = Stderr (Report rep))"
  "set_antenna E cfg dev s = Return r s' \<Longrightarrow>
     r = - 1 \<and> trace s' \<noteq> [] \<and> (\<exists>rep. last (trace s') = Stderr (Report rep))"
  by (auto simp add: set_sample_rate_def set_frequency_def set_frequency_correction_def
      set_dc_offset_mode_def set_antenna_def log_antenna_def Let_def
      split: prod.splits option.splits if_splits dest!: report_failure_line)

lemma set_gains_failure_line:
  "set_gains E cfg dev s = Return r s' \<Longrightarrow>
     r = - 1 \<and> trace s' \<noteq> [] \<and>
     ((\<exists>rep. last (trace s') = Stderr (Report rep)) \<or>
      last (trace s') = Stderr Unable_to_parse_gains \<or>
      last (trace s') = Stderr (No_auto_gain_support (source cfg)))"
  by (auto simp add: set_gains_def Let_def emit_def
      split: prod.splits option.splits if_splits dest!: report_failure_line)

lemma set_device_settings_failure_line:
  "set_device_settings E cfg dev s = Return r s' \<Longrightarrow>
     r = - 1 \<and> trace s' \<noteq> [] \<and>
     (\<exists>d. last (trace s') = Stderr (Unable_to_parse_device_settings (source cfg) d))"
  by (auto simp add: set_device_settings_def Let_def emit_def split: option.splits if_splits)

lemma choose_first:
  "\<exists>ext. trace (snd (soapysdr_choose_sample_format E dev src s)) = trace s @ ext \<and>
         (\<forall>e\<in>set ext. plain e) \<and> starts_negotiation ext"
proof -
  obtain fmt fullscale w1 where
    n: "SoapySDRDevice_getNativeStreamFormat E dev (world s) = ((fmt, fullscale), w1)"
    by (cases "SoapySDRDevice_getNativeStreamFormat E dev (world s)") auto
  define s1 where "s1 = emit (Open (Call_getNativeStreamFormat fmt fullscale)) (s\<lparr>world := w1\<rparr>)"
  have t1: "trace s1 = trace s @ [Open (Call_getNativeStreamFormat fmt fullscale)]"
    by (simp add: s1_def emit_def)
  have ext: "calm plain s1 s0 \<Longrightarrow> calm plain s1 (snd (search_formats E src fs r s0))" for s0 fs r
    by (erule calm_trans) (rule search_formats_calm)
  have "calm plain s1 (snd (soapysdr_choose_sample_format E dev src s))"
    using ext
    by (auto simp add: soapysdr_choose_sample_format_def n s1_def[symmetric] Let_def plain_def
        split: prod.splits option.splits bool.splits)
  then obtain rest where
    r: "trace (snd (soapysdr_choose_sample_format E dev src s)) = trace s1 @ rest"
       "\<forall>e\<in>set rest. plain e"
    by (auto simp add: calm_def)
  show ?thesis
    using r(2)
    by (intro exI[of _ "Open (Call_getNativeStreamFormat fmt fullscale) # rest"])
       (auto simp add: r(1) t1 starts_negotiation_def plain_def)
qed

lemma setup_stream_first:
  "\<exists>ext. trace (flow_state (setup_stream E cfg dev s)) = trace s @ ext \<and>
         (\<forall>e\<in>set ext. plain e) \<and> starts_negotiation ext"
proof -
  obtain chosen s1 where c: "soapysdr_choose_sample_format E dev (source cfg) s = (chosen, s1)"
    by (cases "soapysdr_choose_sample_format E dev (source cfg) s")
  from choose_first[of E dev "source cfg" s] c obtain ext where
    e: "trace s1 = trace s @ ext" "\<forall>e\<in>set ext. plain e" "starts_negotiation ext"
    by auto
  have "calm plain s1 s1" by simp
  then have "calm plain s1 (flow_state (setup_stream E cfg dev s))"
    by (auto simp add: setup_stream_def c report_failure_def Let_def plain_def
        split: prod.splits option.splits)
  then obtain rest where
    r: "trace (flow_state (setup_stream E cfg dev s)) = trace s1 @ rest" "\<forall>e\<in>set rest. plain e"
    by (auto simp add: calm_def)
  show ?thesis
    using e r by (intro exI[of _ "ext @ rest"]) (auto simp add: starts_negotiation_def)
qed

lemma set_antenna_first:
  "\<exists>ext. trace (flow_state (set_antenna E cfg dev s)) = trace s @ ext \<and>
         (\<forall>e\<in>set ext. plain e) \<and> starts_antenna ext"
  by (auto simp add: set_antenna_def log_antenna_def report_failure_def Let_def emit_def
      starts_antenna_def plain_def split: prod.splits option.splits)

lemma after_gains:
  "\<exists>ext. trace (flow_state (run_steps [set_antenna E cfg dev, set_device_settings E cfg dev,
                                        setup_stream E cfg dev] sn)) = trace sn @ ext \<and>
         (\<forall>e\<in>set ext. \<not> is_gain_call e) \<and> starts_antenna ext"
proof -
  from set_antenna_first[of E cfg dev sn] obtain ext1 where
    a: "trace (flow_state (set_antenna E cfg dev sn)) = trace sn @ ext1"
       "\<forall>e\<in>set ext1. plain e" "starts_antenna ext1"
    by blast
  have rest: "calm (\<lambda>e. \<not> is_gain_call e) s1
     (flow_state (run_steps [set_device_settings E cfg dev, setup_stream E cfg dev] s1))" for s1
  proof (rule run_steps_calm)
    fix f s
    assume "f \<in> set [set_device_settings E cfg dev, setup_stream E cfg dev]"
    then consider "f = set_device_settings E cfg dev" | "f = setup_stream E cfg dev" by auto
    then show "calm (\<lambda>e. \<not> is_gain_call e) s (flow_state (f s))"
    proof cases
      case 1
      then show ?thesis by (simp add: set_device_settings_calm)
    next
      case 2
      then show ?thesis using calm_mono[OF setup_stream_calm[of s E cfg dev]]
        by (simp add: plain_def)
    qed
  qed
  show ?thesis
  proof (cases "set_antenna E cfg dev sn")
    case (Return r0 s0)
    then show ?thesis using a by (auto simp add: plain_def)
  next
    case (Next s1)
    from rest[of s1] obtain ext2 where
      b: "trace (flow_state (run_steps [set_device_settings E cfg dev, setup_stream E cfg dev] s1))
            = trace s1 @ ext2" "\<forall>e\<in>set ext2. \<not> is_gain_call e"
      by (auto simp add: calm_def)
    have "starts_antenna (ext1 @ ext2)" using a(3) by (auto simp add: starts_antenna_def)
    then show ?thesis using Next a b
      by (intro exI[of _ "ext1 @ ext2"]) (auto simp add: plain_def)
  qed
qed

lemma after_settings:
  "\<exists>ext. trace (flow_state (run_steps [setup_stream E cfg dev] sn)) = trace sn @ ext \<and>
         (\<forall>e\<in>set ext. \<not> is_setting_call e) \<and> starts_negotiation ext"
proof -
  from setup_stream_first[of E cfg dev sn] obtain ext where
    "trace (flow_state (setup_stream E cfg dev sn)) = trace sn @ ext"
    "\<forall>e\<in>set ext. plain e" "starts_negotiation ext"
    by blast
  then show ?thesis
    by (cases "setup_stream E cfg dev sn") (auto simp add: plain_def)
qed

lemma init_at_block:
  assumes split: "\<And>dev. init_steps E cfg dev = pre dev @ g dev # post dev"
    and calm_pre: "\<And>dev f s. f \<in> set (pre dev) \<Longrightarrow> calm P s (flow_state (f s))"
    and fail_pre: "\<And>dev f s r s'. f \<in> set (pre dev) \<Longrightarrow> f s = Return r s' \<Longrightarrow>
                     r = - 1 \<and> trace s' \<noteq> [] \<and> K (last (trace s'))"
    and P_plain: "\<And>e. plain e \<Longrightarrow> P e"
    and K_report: "\<And>rep. K (Stderr (Report rep))"
    and post_first: "\<And>dev sn. \<exists>ext. trace (flow_state (run_steps (post dev) sn)) = trace sn @ ext \<and>
                       (\<forall>e\<in>set ext. P e) \<and> F ext"
    and init: "soapysdr_input_init E cfg s = (r, s')"
  shows "(r = - 1 \<and> new_events s s' \<noteq> [] \<and> K (last (new_events s s')) \<and>
          (\<forall>e\<in>set (new_events s s'). P e)) \<or>
         (\<exists>dev sg pre'. trace sg = trace s @ pre' \<and> (\<forall>e\<in>set pre'. P e) \<and>
            Open (Call_makeStrArgs (source cfg) (Some dev)) \<in> set pre' \<and>
            (case g dev sg of
               Return r0 s0 \<Rightarrow> r = r0 \<and> s' = s0
             | Next sn \<Rightarrow> \<exists>post'. trace s' = trace sn @ post' \<and> (\<forall>e\<in>set post'. P e) \<and> F post'))"
proof -
  define s0 where "s0 = soapysdr_verbose_device_search E s"
  obtain dev_opt w1 where m: "SoapySDRDevice_makeStrArgs E (source cfg) (world s0) = (dev_opt, w1)"
    by (cases "SoapySDRDevice_makeStrArgs E (source cfg) (world s0)")
  define s1 where "s1 = emit (Open (Call_makeStrArgs (source cfg) dev_opt)) (s0\<lparr>world := w1\<rparr>)"
  have "calm plain s s0" unfolding s0_def by (rule verbose_calm)
  then have "calm P s s0" using P_plain by (rule calm_mono)
  then obtain ext0 where e0: "trace s0 = trace s @ ext0" "\<forall>e\<in>set ext0. P e"
    by (auto simp add: calm_def)
  have Pm: "P (Open (Call_makeStrArgs (source cfg) dev_opt))"
    by (rule P_plain) (simp add: plain_def)
  define ext1 where "ext1 = ext0 @ [Open (Call_makeStrArgs (source cfg) dev_opt)]"
  have e1: "trace s1 = trace s @ ext1" "\<forall>e\<in>set ext1. P e" "ext1 \<noteq> []"
    using e0 Pm by (auto simp add: s1_def ext1_def emit_def)
  have fl: "init_flow E cfg s =
     (case dev_opt of None \<Rightarrow> report_failure E (Could_not_open (source cfg)) s1
      | Some dev \<Rightarrow> run_steps (init_steps E cfg dev) s1)"
    using m by (cases dev_opt) (simp_all add: init_flow_def Let_def s0_def s1_def)
  have fin: "(r, s') = (case init_flow E cfg s of Return r s' \<Rightarrow> (r, s') | Next s' \<Rightarrow> (0, s'))"
    using init by (simp add: init_as_flow)
  show ?thesis
  proof (cases dev_opt)
    case None
    define err where "err = SoapySDRDevice_lastError E (world s1)"
    have "init_flow E cfg s =
        Return (- 1) (emit (Stderr (Report (Could_not_open (source cfg) err)))
                       (emit (Open (Call_lastError err)) s1))"
      using fl None by (simp add: report_failure_def Let_def err_def)
    then have r: "r = - 1"
      and s': "s' = emit (Stderr (Report (Could_not_open (source cfg) err)))
                       (emit (Open (Call_lastError err)) s1)"
      using fin by simp_all
    have Pl: "P (Open (Call_lastError err))" "P (Stderr (Report (Could_not_open (source cfg) err)))"
      by (rule P_plain, simp add: plain_def)+
    have ne: "new_events s s' = ext1 @ [Open (Call_lastError err),
                 Stderr (Report (Could_not_open (source cfg) err))]"
      by (simp add: new_events_def s' emit_def e1)
    have "r = - 1 \<and> new_events s s' \<noteq> [] \<and> K (last (new_events s s')) \<and>
          (\<forall>e\<in>set (new_events s s'). P e)"
      unfolding ne using r e1 Pl K_report by auto
    then show ?thesis by blast
  next
    case (Some dev)
    have fl2: "init_flow E cfg s =
       (case run_steps (pre dev) s1 of Return r s' \<Rightarrow> Return r s'
        | Next sg \<Rightarrow> run_steps (g dev # post dev) sg)"
      using fl Some by (simp add: split run_steps_append)
    have c: "calm P s1 (flow_state (run_steps (pre dev) s1))"
      by (rule run_steps_calm) (rule calm_pre)
    show ?thesis
    proof (cases "run_steps (pre dev) s1")
      case (Return r0 sf)
      then have eq: "r = r0" "s' = sf" using fl2 fin by simp_all
      have "r0 = - 1 \<and> trace sf \<noteq> [] \<and> K (last (trace sf))"
        using fail_pre Return by (rule run_steps_failure_line)
      moreover from c Return obtain ext2 where
        e2: "trace sf = trace s1 @ ext2" "\<forall>e\<in>set ext2. P e"
        by (auto simp add: calm_def)
      have ne: "new_events s s' = ext1 @ ext2"
        by (simp add: new_events_def eq e2 e1)
      have "last (trace sf) = last (ext1 @ ext2)"
        using e1 e2 by simp
      ultimately have "r = - 1 \<and> new_events s s' \<noteq> [] \<and> K (last (new_events s s')) \<and>
          (\<forall>e\<in>set (new_events s s'). P e)"
        unfolding ne using eq e1 e2 by auto
      then show ?thesis by blast
    next
      case (Next sg)
      from c Next obtain ext2 where
        e2: "trace sg = trace s1 @ ext2" "\<forall>e\<in>set ext2. P e"
        by (auto simp add: calm_def)
      have tg: "trace sg = trace s @ (ext1 @ ext2)" "\<forall>e\<in>set (ext1 @ ext2). P e"
        "Open (Call_makeStrArgs (source cfg) (Some dev)) \<in> set (ext1 @ ext2)"
        using e1 e2 Some by (auto simp add: ext1_def)
      have fl3: "init_flow E cfg s = run_steps (g dev # post dev) sg"
        using fl2 Next by simp
      have "case g dev sg of
               Return r0 s0 \<Rightarrow> r = r0 \<and> s' = s0
             | Next sn \<Rightarrow> \<exists>post'. trace s' = trace sn @ post' \<and> (\<forall>e\<in>set post'. P e) \<and> F post'"
      proof (cases "g dev sg")
        case (Return r0 sf)
        then show ?thesis using fl3 fin by simp
      next
        case (Next sn)
        then have "init_flow E cfg s = run_steps (post dev) sn" using fl3 by simp
        then have "s' = flow_state (run_steps (post dev) sn)"
          using fin by (cases "run_steps (post dev) sn") simp_all
        then show ?thesis using Next post_first[of dev sn] by simp
      qed
      then show ?thesis using tg by blast
    qed
  qed
qed

lemma init_at_gains:
  assumes "soapysdr_input_init E cfg s = (r, s')"
  shows "failed_earlier device_error_line is_gain_call (new_events s s') r \<or>
         (\<exists>dev sg pre. trace sg = trace s @ pre \<and> (\<forall>e\<in>set pre. \<not> is_gain_call e) \<and>
            Open (Call_makeStrArgs (source cfg) (Some dev)) \<in> set pre \<and>
            (case set_gains E cfg dev sg of
               Return r0 s0 \<Rightarrow> r = r0 \<and> s' = s0
             | Next sn \<Rightarrow> \<exists>post. trace s' = trace sn @ post \<and>
                              (\<forall>e\<in>set post. \<not> is_gain_call e) \<and> starts_antenna post))"
  unfolding failed_earlier_def
proof (rule init_at_block[where
        pre = "\<lambda>dev. [set_sample_rate E cfg dev, set_frequency E cfg dev,
                      set_frequency_correction E cfg dev, set_dc_offset_mode E cfg dev]"
        and g = "\<lambda>dev. set_gains E cfg dev"
        and post = "\<lambda>dev. [set_antenna E cfg dev, set_device_settings E cfg dev,
                      setup_stream E cfg dev]"
        and P = "\<lambda>e. \<not> is_gain_call e" and K = device_error_line and F = starts_antenna,
        OF _ _ _ _ _ _ assms])
  show "init_steps E cfg dev = [set_sample_rate E cfg dev, set_frequency E cfg dev,
                      set_frequency_correction E cfg dev, set_dc_offset_mode E cfg dev] @
          set_gains E cfg dev # [set_antenna E cfg dev, set_device_settings E cfg dev,
                      setup_stream E cfg dev]" for dev
    by (simp add: init_steps_def)
  show "calm (\<lambda>e. \<not> is_gain_call e) s (flow_state (f s))"
    if "f \<in> set [set_sample_rate E cfg dev, set_frequency E cfg dev,
                      set_frequency_correction E cfg dev, set_dc_offset_mode E cfg dev]"
    for dev f s
  proof -
    have "calm plain s (flow_state (f s))"
      using that plain_steps_calm[of s E cfg dev] by auto
    then show ?thesis by (rule calm_mono) (simp add: plain_def)
  qed
  show "r = - 1 \<and> trace s' \<noteq> [] \<and> device_error_line (last (trace s'))"
    if "f \<in> set [set_sample_rate E cfg dev, set_frequency E cfg dev,
                      set_frequency_correction E cfg dev, set_dc_offset_mode E cfg dev]"
      "f s = Return r s'" for dev f s r s'
    unfolding device_error_line_def
    using that tested_steps_failure_line[of E cfg dev s r s'] by auto
  show "\<not> is_gain_call e" if "plain e" for e using that by (simp add: plain_def)
  show "device_error_line (Stderr (Report rep))" for rep by (simp add: device_error_line_def)
  show "\<exists>ext. trace (flow_state (run_steps [set_antenna E cfg dev, set_device_settings E cfg dev,
                      setup_stream E cfg dev] sn)) = trace sn @ ext \<and>
          (\<forall>e\<in>set ext. \<not> is_gain_call e) \<and> starts_antenna ext" for dev sn
    by (rule after_gains)
qed

lemma init_at_settings:
  assumes "soapysdr_input_init E cfg s = (r, s')"
  shows "failed_earlier (\<lambda>l. device_error_line l \<or> gain_error_line cfg l) is_setting_call
           (new_events s s') r \<or>
         (\<exists>dev sg pre. trace sg = trace s @ pre \<and> (\<forall>e\<in>set pre. \<not> is_setting_call e) \<and>
            Open (Call_makeStrArgs (source cfg) (Some dev)) \<in> set pre \<and>
            (case set_device_settings E cfg dev sg of
               Return r0 s0 \<Rightarrow> r = r0 \<and> s' = s0
             | Next sn \<Rightarrow> \<exists>post. trace s' = trace sn @ post \<and>
                              (\<forall>e\<in>set post. \<not> is_setting_call e) \<and> starts_negotiation post))"
  unfolding failed_earlier_def
proof (rule init_at_block[where
        pre = "\<lambda>dev. [set_sample_rate E cfg dev, set_frequency E cfg dev,
                      set_frequency_correction E cfg dev, set_dc_offset_mode E cfg dev,
                      set_gains E cfg dev, set_antenna E cfg dev]"
        and g = "\<lambda>dev. set_device_settings E cfg dev"
        and post = "\<lambda>dev. [setup_stream E cfg dev]"
        and P = "\<lambda>e. \<not> is_setting_call e"
        and K = "\<lambda>l. device_error_line l \<or> gain_error_line cfg l"
        and F = starts_negotiation,
        OF _ _ _ _ _ _ assms])
  show "init_steps E cfg dev = [set_sample_rate E cfg dev, set_frequency E cfg dev,
                      set_frequency_correction E cfg dev, set_dc_offset_mode E cfg dev,
                      set_gains E cfg dev, set_antenna E cfg dev] @
          set_device_settings E cfg dev # [setup_stream E cfg dev]" for dev
    by (simp add: init_steps_def)
  show "calm (\<lambda>e. \<not> is_setting_call e) s (flow_state (f s))"
    if "f \<in> set [set_sample_rate E cfg dev, set_frequency E cfg dev,
                      set_frequency_correction E cfg dev, set_dc_offset_mode E cfg dev,
                      set_gains E cfg dev, set_antenna E cfg dev]"
    for dev f s
  proof (cases "f = set_gains E cfg dev")
    case True
    then show ?thesis by (simp add: set_gains_calm)
  next
    case False
    then have "calm plain s (flow_state (f s))"
      using that plain_steps_calm[of s E cfg dev] by auto
    then show ?thesis by (rule calm_mono) (simp add: plain_def)
  qed
  show "r = - 1 \<and> trace s' \<noteq> [] \<and>
        (device_error_line (last (trace s')) \<or> gain_error_line cfg (last (trace s')))"
    if "f \<in> set [set_sample_rate E cfg dev, set_frequency E cfg dev,
                      set_frequency_correction E cfg dev, set_dc_offset_mode E cfg dev,
                      set_gains E cfg dev, set_antenna E cfg dev]"
      "f s = Return r s'" for dev f s r s'
  proof (cases "f = set_gains E cfg dev")
    case True
    then show ?thesis
      using that(2) set_gains_failure_line[of E cfg dev s r s']
      by (auto simp add: device_error_line_def gain_error_line_def)
  next
    case False
    then show ?thesis
      unfolding device_error_line_def
      using that tested_steps_failure_line[of E cfg dev s r s'] by auto
  qed
  show "\<not> is_setting_call e" if "plain e" for e using that by (simp add: plain_def)
  show "device_error_line (Stderr (Report rep)) \<or> gain_error_line cfg (Stderr (Report rep))" for rep
    by (simp add: device_error_line_def)
  show "\<exists>ext. trace (flow_state (run_steps [setup_stream E cfg dev] sn)) = trace sn @ ext \<and>
          (\<forall>e\<in>set ext. \<not> is_setting_call e) \<and> starts_negotiation ext" for dev sn
    by (rule after_settings)
qed

lemma gain_elements_trace:
  "\<exists>results. length results = length gains \<and>
     trace (set_gain_elements E cfg dev gains s) = trace s @ gain_element_events E cfg gains results"
  unfolding gain_element_events_def by (rule set_gain_elements_events)

lemma write_settings_trace:
  "\<exists>results. length results = length kvs \<and>
     trace (write_settings E cfg dev kvs s) = trace s @ setting_events cfg kvs results"
proof (induction kvs arbitrary: s)
  case Nil
  then show ?case by (simp add: setting_events_def)
next
  case (Cons kv kvs)
  obtain k v where kv: "kv = (k, v)" by (cases kv)
  obtain rc w1 where a: "SoapySDRDevice_writeSetting E dev k v (world s) = (rc, w1)"
    by (cases "SoapySDRDevice_writeSetting E dev k v (world s)")
  obtain sv w2 where b: "SoapySDRDevice_readSetting E dev k w1 = (sv, w2)"
    by (cases "SoapySDRDevice_readSetting E dev k w1")
  define s3 where "s3 = emit (Stderr (Info (Setting_result (source cfg) k sv (v = sv))))
     (emit (Tune (Call_readSetting k sv))
       (emit (Tune (Call_writeSetting k v rc)) (s\<lparr>world := w1\<rparr>)\<lparr>world := w2\<rparr>))"
  have t3: "trace s3 = trace s @ [Tune (Call_writeSetting k v rc),
                  Tune (Call_readSetting k sv),
                  Stderr (Info (Setting_result (source cfg) k sv (v = sv)))]"
    by (simp add: s3_def emit_def)
  have step: "write_settings E cfg dev (kv # kvs) s = write_settings E cfg dev kvs s3"
    by (simp add: kv a b Let_def world_emit s3_def)
  from Cons.IH[of s3] obtain results where r: "length results = length kvs"
    "trace (write_settings E cfg dev kvs s3) = trace s3 @ setting_events cfg kvs results"
    by blast
  show ?case unfolding step
    by (rule exI[of _ "(rc, sv) # results"]) (simp add: r t3 kv setting_events_def)
qed

lemma set_gains_scalar:
  assumes "gain_elements cfg = None" "gain cfg \<noteq> AUTO_GAIN E"
    "SoapySDRDevice_setGain E dev (gain cfg) (world s) = (rc, w1)"
  shows "set_gains E cfg dev s =
        (if rc \<noteq> 0 then
           Return (- 1) (s\<lparr>world := w1, trace := trace s @
             [Gain (Call_setGain (gain cfg) rc),
              Open (Call_lastError (SoapySDRDevice_lastError E w1)),
              Stderr (Report (Could_not_set_gain (source cfg) (SoapySDRDevice_lastError E w1)))]\<rparr>)
         else
           Next (s\<lparr>world := w1, trace := trace s @
             [Gain (Call_setGain (gain cfg) rc),
              Stderr (Info (Gain_set (source cfg) (gain cfg)))]\<rparr>))"
  using assms by (simp add: set_gains_def report_failure_def emit_def Let_def)

lemma set_gains_auto:
  assumes "gain_elements cfg = None" "gain cfg = AUTO_GAIN E"
    "SoapySDRDevice_hasGainMode E dev (world s) = (has, w2)"
    "SoapySDRDevice_setGainMode E dev True w2 = (rc, w3)"
  shows "set_gains E cfg dev s =
        (if \<not> has then
           Return (- 1) (s\<lparr>world := w2, trace := trace s @
             [Gain (Call_hasGainMode False),
              Stderr (No_auto_gain_support (source cfg))]\<rparr>)
         else if rc \<noteq> 0 then
           Return (- 1) (s\<lparr>world := w3, trace := trace s @
             [Gain (Call_hasGainMode True),
              Gain (Call_setGainMode True rc),
              Open (Call_lastError (SoapySDRDevice_lastError E w3)),
              Stderr (Report (Could_not_enable_auto_gain (source cfg)
                               (SoapySDRDevice_lastError E w3)))]\<rparr>)
         else
           Next (s\<lparr>world := w3, trace := trace s @
             [Gain (Call_hasGainMode True),
              Gain (Call_setGainMode True rc),
              Stderr (Info (Auto_gain_enabled (source cfg)))]\<rparr>))"
  using assms by (simp add: set_gains_def report_failure_def emit_def Let_def)

lemma init_with_gain_elements:
  assumes init: "soapysdr_input_init E cfg s = (r, s')"
    and cfg: "gain_elements cfg = Some g" "SoapySDRKwargs_fromString E g = gains" "gains \<noteq> []"
  shows "failed_earlier device_error_line is_gain_call (new_events s s') r \<or>
      (\<exists>dev sg pre results post.
          trace sg = trace s @ pre \<and> (\<forall>e\<in>set pre. \<not> is_gain_call e) \<and>
          Open (Call_makeStrArgs (source cfg) (Some dev)) \<in> set pre \<and>
          length results = length gains \<and>
          trace (set_gain_elements E cfg dev gains sg) =
            trace sg @ gain_element_events E cfg gains results \<and>
          trace s' = trace (set_gain_elements E cfg dev gains sg) @ post \<and>
          (\<forall>e\<in>set post. \<not> is_gain_call e) \<and> starts_antenna post)"
proof -
  have blk: "set_gains E cfg dev sg = Next (set_gain_elements E cfg dev gains sg)" for dev sg
    using cfg by (cases gains) (simp_all add: set_gains_def)
  from init_at_gains[OF init] show ?thesis
  proof
    assume "failed_earlier device_error_line is_gain_call (new_events s s') r"
    then show ?thesis by blast
  next
    assume "\<exists>dev sg pre. trace sg = trace s @ pre \<and> (\<forall>e\<in>set pre. \<not> is_gain_call e) \<and>
            Open (Call_makeStrArgs (source cfg) (Some dev)) \<in> set pre \<and>
            (case set_gains E cfg dev sg of
               Return r0 s0 \<Rightarrow> r = r0 \<and> s' = s0
             | Next sn \<Rightarrow> \<exists>post. trace s' = trace sn @ post \<and>
                              (\<forall>e\<in>set post. \<not> is_gain_call e) \<and> starts_antenna post)"
    then obtain dev sg pre post where
      a: "trace sg = trace s @ pre" "\<forall>e\<in>set pre. \<not> is_gain_call e"
         "Open (Call_makeStrArgs (source cfg) (Some dev)) \<in> set pre"
         "trace s' = trace (set_gain_elements E cfg dev gains sg) @ post"
         "\<forall>e\<in>set post. \<not> is_gain_call e" "starts_antenna post"
      by (auto simp add: blk)
    from gain_elements_trace[of gains E cfg dev sg] obtain results where
      b: "length results = length gains"
         "trace (set_gain_elements E cfg dev gains sg) =
            trace sg @ gain_element_events E cfg gains results"
      by blast
    show ?thesis using a b by blast
  qed
qed

lemma init_with_settings:
  assumes init: "soapysdr_input_init E cfg s = (r, s')"
    and cfg: "device_settings cfg = Some d" "SoapySDRKwargs_fromString E d = kvs" "kvs \<noteq> []"
  shows "failed_earlier (\<lambda>l. device_error_line l \<or> gain_error_line cfg l) is_setting_call
           (new_events s s') r \<or>
      (\<exists>dev sg pre results post.
          trace sg = trace s @ pre \<and> (\<forall>e\<in>set pre. \<not> is_setting_call e) \<and>
          Open (Call_makeStrArgs (source cfg) (Some dev)) \<in> set pre \<and>
          length results = length kvs \<and>
          trace (write_settings E cfg dev kvs sg) = trace sg @ setting_events cfg kvs results \<and>
          trace s' = trace (write_settings E cfg dev kvs sg) @ post \<and>
          (\<forall>e\<in>set post. \<not> is_setting_call e) \<and> starts_negotiation post)"
proof -
  have blk: "set_device_settings E cfg dev sg = Next (write_settings E cfg dev kvs sg)" for dev sg
    using cfg by (cases kvs) (simp_all add: set_device_settings_def)
  from init_at_settings[OF init] show ?thesis
  proof
    assume "failed_earlier (\<lambda>l. device_error_line l \<or> gain_error_line cfg l) is_setting_call
           (new_events s s') r"
    then show ?thesis by blast
  next
    assume "\<exists>dev sg pre. trace sg = trace s @ pre \<and> (\<forall>e\<in>set pre. \<not> is_setting_call e) \<and>
            Open (Call_makeStrArgs (source cfg) (Some dev)) \<in> set pre \<and>
            (case set_device_settings E cfg dev sg of
               Return r0 s0 \<Rightarrow> r = r0 \<and> s' = s0
             | Next sn \<Rightarrow> \<exists>post. trace s' = trace sn @ post \<and>
                              (\<forall>e\<in>set post. \<not> is_setting_call e) \<and> starts_negotiation post)"
    then obtain dev sg pre post where
      a: "trace sg = trace s @ pre" "\<forall>e\<in>set pre. \<not> is_setting_call e"
         "Open (Call_makeStrArgs (source cfg) (Some dev)) \<in> set pre"
         "trace s' = trace (write_settings E cfg dev kvs sg) @ post"
         "\<forall>e\<in>set post. \<not> is_setting_call e" "starts_negotiation post"
      by (auto simp add: blk)
    from write_settings_trace[of kvs E cfg dev sg] obtain results where
      b: "length results = length kvs"
         "trace (write_settings E cfg dev kvs sg) = trace sg @ setting_events cfg kvs results"
      by blast
    show ?thesis using a b by blast
  qed
qed

lemma fatal_setter_failure_aborts:
  assumes "soapysdr_input_init E cfg s = (r, s')"
    and "new_events s s' = pre @ ev # post"
    and "fatal_setter_failure cfg ev = Some msg"
  shows "r = - 1 \<and> (\<exists>err. post = [Open (Call_lastError err), Stderr (Report (msg err))])"
proof -
  have ok: "step_ok cfg s (init_flow E cfg s)" by (rule init_flow_ok)
  have clean_impossible: False
    if "trace s' = trace s @ ext" "\<forall>e\<in>set ext. fatal_setter_failure cfg e = None" for ext
  proof -
    have "new_events s s' = ext" using that by (simp add: new_events_def)
    then have "ev \<in> set ext" using assms(2) by auto
    then show False using that assms(3) by auto
  qed
  have ab: "r = - 1 \<and> (\<exists>err. post = [Open (Call_lastError err), Stderr (Report (msg err))])"
    if "aborted cfg s s'" "r = - 1"
  proof -
    from that obtain pre' ev' msg' err where
      t: "trace s' = trace s @ pre' @ [ev', Open (Call_lastError err), Stderr (Report (msg' err))]"
      and c: "\<forall>e\<in>set pre'. fatal_setter_failure cfg e = None"
      and f: "fatal_setter_failure cfg ev' = Some msg'"
      by (auto simp add: aborted_def)
    have "new_events s s' = pre' @ [ev', Open (Call_lastError err), Stderr (Report (msg' err))]"
      using t by (simp add: new_events_def)
    then have eq: "pre @ ev # post = pre' @ [ev', Open (Call_lastError err), Stderr (Report (msg' err))]"
      using assms(2) by simp
    have "ev = ev' \<and> post = [Open (Call_lastError err), Stderr (Report (msg' err))]"
      by (rule unique_failure_position[OF eq, of "\<lambda>e. fatal_setter_failure cfg e \<noteq> None"])
         (use assms(3) c in auto)
    then show ?thesis using that f assms(3) by auto
  qed
  show ?thesis
  proof (cases "init_flow E cfg s")
    case (Return r0 s0)
    then have "r0 = r" "s0 = s'" using assms(1) by (simp_all add: init_as_flow)
    then show ?thesis using ok Return clean_impossible ab
      by (auto simp add: step_ok_def quiet_def)
  next
    case (Next s0)
    then have "s0 = s'" using assms(1) by (simp add: init_as_flow)
    then show ?thesis using ok Next clean_impossible by (auto simp add: step_ok_def quiet_def)
  qed
qed

lemma search_formats_find_Some:
  "List.find (format_usable E) fs = Some f \<Longrightarrow>
   search_formats E src fs r s =
     (\<lparr>sfmt = sample_format_from_string E f, soapy_sfmt = Some f,
       full_scale = get_sample_full_scale_value E (sample_format_from_string E f),
       sample_size = SoapySDR_formatToSize E f\<rparr>,
      emit (Stderr (Info (Using_non_native_format src f
              (get_sample_full_scale_value E (sample_format_from_string E f))))) s)"
proof -
  assume a: "List.find (format_usable E) fs = Some f"
  then obtain i where i: "i < length fs" "format_usable E (fs ! i)" "f = fs ! i"
    "\<forall>j<i. \<not> format_usable E (fs ! j)"
    by (auto simp add: find_Some_iff)
  have d: "fs = take i fs @ f # drop (Suc i) fs"
    using i(1,3) by (simp add: id_take_nth_drop)
  have n: "\<forall>g\<in>set (take i fs). \<not> format_usable E g"
    using i(1,4) by (auto simp add: in_set_conv_nth)
  show ?thesis
    using search_formats_first[OF n, of f src "drop (Suc i) fs" r s] i(2,3) d by simp
qed

lemma search_formats_find_None:
  "List.find (format_usable E) fs = None \<Longrightarrow>
   soapy_sfmt (fst (search_formats E src fs r s)) = soapy_sfmt r \<and>
   snd (search_formats E src fs r s) = s"
  using search_formats_none_usable[of fs E src r s]
  by (cases "fs = []") (auto simp add: find_None_iff)

subsection \<open>Negotiation of the sample format\<close>

text \<open>
  Claim C1, as stated: if the native format of the device maps to a known sample format,
  the size SoapySDR gives for it is the size expected for that sample format, and the full
  scale the device reports is strictly positive, the function returns the native format
  with that full scale at once; if one of the three conditions fails, the native format
  is not chosen. The code differs on both halves. First, a native format that fails a
  condition is still the format of the result when the list of stream formats of the
  device names it: with the native format CS16, a reported full scale of 0 and the list
  [CS16], the result is CS16, with the constant of its sample format as full scale.
  Second, the third condition is tested on the value as stored in the \<^verbatim>\<open>float\<close> field
  \<^verbatim>\<open>result.full_scale\<close> (line 58), not on the \<^verbatim>\<open>double\<close> the device reports: with a
  known native format of the expected size and a reported full scale that is positive
  and narrows to 0, the list of formats is queried and its entry CU8 is returned.
\<close>

theorem native_format_counterexample:
  "SoapySDRDevice_getNativeStreamFormat (demo_env ''CS16'' 0 (Some [''CS16''])) 1 (world demo_input) =
     ((''CS16'', 0), 0) \<and>
   \<not> (0 :: real) < 0 \<and>
   fst (soapysdr_choose_sample_format (demo_env ''CS16'' 0 (Some [''CS16''])) 1 ''demo'' demo_input) =
     \<lparr>sfmt = 2, soapy_sfmt = Some ''CS16'', full_scale = 32767.5, sample_size = 4\<rparr> \<and>
   SoapySDRDevice_getNativeStreamFormat demo_underflow_env 1 (world demo_input) =
     ((''CS16'', 1 / 2 ^ 200), 0) \<and>
   sample_format_from_string demo_underflow_env ''CS16'' \<noteq> SFMT_UNDEF demo_underflow_env \<and>
   SoapySDR_formatToSize demo_underflow_env ''CS16'' =
     get_sample_size demo_underflow_env (sample_format_from_string demo_underflow_env ''CS16'') \<and>
   (0 :: real) < 1 / 2 ^ 200 \<and>
   soapysdr_choose_sample_format demo_underflow_env 1 ''demo'' demo_input =
     (\<lparr>sfmt = 1, soapy_sfmt = Some ''CU8'', full_scale = 127.5, sample_size = 2\<rparr>,
      demo_input\<lparr>trace :=
        [Open (Call_getNativeStreamFormat ''CS16'' (1 / 2 ^ 200)),
         Open (Call_getStreamFormats (Some [''CU8''])),
         Stderr (Info (Using_non_native_format ''demo'' ''CU8'' 127.5))]\<rparr>)"
  by (simp add: choose_defs demo_defs demo_underflow_env_def Let_def)

text \<open>
  Claim C1, amended. Let the device answer the query for its native stream format with the
  name \<open>fmt\<close> and the full scale \<open>fullscale\<close>. If the name maps to a known sample
  format, the size SoapySDR gives for it is the size expected for that sample format, and
  the full scale as stored in the \<^verbatim>\<open>float\<close> field of the result is strictly positive,
  then \<open>soapysdr_choose_sample_format\<close> returns that format with that stored full scale
  at once: the only call to the device is the query for the native format, and the world
  is the one this query left. If one of the three conditions fails, the native format is
  not accepted: the function queries the list of stream formats, writes no line "using
  native sample format", and the format name of its result is decided by the list alone.
  It is the first entry of the list that passes the test of mapping and size (which may
  be the name of the native format), and then the result has the sample format and the
  size of that entry and the constant full scale of its sample format, not the full scale
  the device reported; it is NULL when the list is unreadable or has no such entry.
\<close>

theorem native_format_accepted_iff_usable:
  assumes "SoapySDRDevice_getNativeStreamFormat E dev (world s) = ((fmt, fullscale), w1)"
  shows
    "(native_usable E fmt fullscale \<longrightarrow>
        soapysdr_choose_sample_format E dev src s =
          (\<lparr>sfmt = sample_format_from_string E fmt, soapy_sfmt = Some fmt,
            full_scale = double_to_float E fullscale,
            sample_size = SoapySDR_formatToSize E fmt\<rparr>,
           s\<lparr>world := w1,
             trace := trace s @
               [Open (Call_getNativeStreamFormat fmt fullscale),
                Stderr (Info (Using_native_format src fmt (double_to_float E fullscale)))]\<rparr>)) \<and>
     (\<not> native_usable E fmt fullscale \<longrightarrow>
        (\<exists>formats w2 rest.
           SoapySDRDevice_getStreamFormats E dev w1 = (formats, w2) \<and>
           world (snd (soapysdr_choose_sample_format E dev src s)) = w2 \<and>
           new_events s (snd (soapysdr_choose_sample_format E dev src s)) =
             Open (Call_getNativeStreamFormat fmt fullscale) #
             Open (Call_getStreamFormats formats) # rest \<and>
           (\<forall>e\<in>set rest. \<not> is_native_log e) \<and>
           soapy_sfmt (fst (soapysdr_choose_sample_format E dev src s)) =
             (case formats of None \<Rightarrow> None | Some fs \<Rightarrow> List.find (format_usable E) fs) \<and>
           (\<forall>f. soapy_sfmt (fst (soapysdr_choose_sample_format E dev src s)) = Some f \<longrightarrow>
              sfmt (fst (soapysdr_choose_sample_format E dev src s)) = sample_format_from_string E f \<and>
              full_scale (fst (soapysdr_choose_sample_format E dev src s)) =
                get_sample_full_scale_value E (sample_format_from_string E f) \<and>
              sample_size (fst (soapysdr_choose_sample_format E dev src s)) =
                SoapySDR_formatToSize E f)))"
proof (intro conjI)
  show "native_usable E fmt fullscale \<longrightarrow>
        soapysdr_choose_sample_format E dev src s =
          (\<lparr>sfmt = sample_format_from_string E fmt, soapy_sfmt = Some fmt,
            full_scale = double_to_float E fullscale,
            sample_size = SoapySDR_formatToSize E fmt\<rparr>,
           s\<lparr>world := w1,
             trace := trace s @
               [Open (Call_getNativeStreamFormat fmt fullscale),
                Stderr (Info (Using_native_format src fmt (double_to_float E fullscale)))]\<rparr>)"
  proof
    assume u: "native_usable E fmt fullscale"
    obtain r where t: "native_test E fmt fullscale
        \<lparr>sfmt = SFMT_UNDEF E, soapy_sfmt = None, full_scale = 0, sample_size = 0\<rparr> = (True, r)"
      using u native_test_fst[of E fmt fullscale] by (metis prod.collapse)
    have "r = \<lparr>sfmt = sample_format_from_string E fmt, soapy_sfmt = None,
              full_scale = double_to_float E fullscale,
              sample_size = SoapySDR_formatToSize E fmt\<rparr>"
      using native_test_snd_usable[OF u, of "\<lparr>sfmt = SFMT_UNDEF E, soapy_sfmt = None, full_scale = 0, sample_size = 0\<rparr>"] t
      by simp
    then show "soapysdr_choose_sample_format E dev src s =
            (\<lparr>sfmt = sample_format_from_string E fmt, soapy_sfmt = Some fmt,
              full_scale = double_to_float E fullscale,
              sample_size = SoapySDR_formatToSize E fmt\<rparr>,
             s\<lparr>world := w1,
               trace := trace s @
                 [Open (Call_getNativeStreamFormat fmt fullscale),
                  Stderr (Info (Using_native_format src fmt (double_to_float E fullscale)))]\<rparr>)"
      using assms t by (simp add: soapysdr_choose_sample_format_def emit_def)
  qed
next
  let ?R = "soapysdr_choose_sample_format E dev src s"
  show "\<not> native_usable E fmt fullscale \<longrightarrow>
        (\<exists>formats w2 rest.
           SoapySDRDevice_getStreamFormats E dev w1 = (formats, w2) \<and>
           world (snd ?R) = w2 \<and>
           new_events s (snd ?R) =
             Open (Call_getNativeStreamFormat fmt fullscale) #
             Open (Call_getStreamFormats formats) # rest \<and>
           (\<forall>e\<in>set rest. \<not> is_native_log e) \<and>
           soapy_sfmt (fst ?R) =
             (case formats of None \<Rightarrow> None | Some fs \<Rightarrow> List.find (format_usable E) fs) \<and>
           (\<forall>f. soapy_sfmt (fst ?R) = Some f \<longrightarrow>
              sfmt (fst ?R) = sample_format_from_string E f \<and>
              full_scale (fst ?R) = get_sample_full_scale_value E (sample_format_from_string E f) \<and>
              sample_size (fst ?R) = SoapySDR_formatToSize E f))"
  proof
    assume u: "\<not> native_usable E fmt fullscale"
    obtain r where t: "native_test E fmt fullscale
        \<lparr>sfmt = SFMT_UNDEF E, soapy_sfmt = None, full_scale = 0, sample_size = 0\<rparr> = (False, r)"
      using u native_test_fst[of E fmt fullscale] by (metis prod.collapse)
    have "soapy_sfmt (snd (native_test E fmt fullscale
        \<lparr>sfmt = SFMT_UNDEF E, soapy_sfmt = None, full_scale = 0, sample_size = 0\<rparr>)) = None"
      by (simp add: native_test_def Let_def)
    then have rn: "soapy_sfmt r = None" by (simp add: t)
    obtain formats w2 where g: "SoapySDRDevice_getStreamFormats E dev w1 = (formats, w2)"
      by (cases "SoapySDRDevice_getStreamFormats E dev w1")
    define s2 where "s2 = s\<lparr>world := w2, trace := trace s @
        [Open (Call_getNativeStreamFormat fmt fullscale), Open (Call_getStreamFormats formats)]\<rparr>"
    have R: "?R = (case formats of
                    None \<Rightarrow> (r\<lparr>sfmt := SFMT_UNDEF E\<rparr>, emit (Stderr (Failed_to_read_formats src)) s2)
                  | Some fs \<Rightarrow> if fs = []
                      then (r\<lparr>sfmt := SFMT_UNDEF E\<rparr>, emit (Stderr (Failed_to_read_formats src)) s2)
                      else search_formats E src fs r s2)"
      using assms t g
      by (cases formats) (simp_all add: soapysdr_choose_sample_format_def emit_def s2_def Let_def)
    have tr2: "trace s2 = trace s @
        [Open (Call_getNativeStreamFormat fmt fullscale), Open (Call_getStreamFormats formats)]"
      "world s2 = w2"
      by (simp_all add: s2_def)
    have main: "\<exists>rest. world (snd ?R) = w2 \<and> trace (snd ?R) = trace s2 @ rest \<and>
           (\<forall>e\<in>set rest. \<not> is_native_log e) \<and>
           soapy_sfmt (fst ?R) =
             (case formats of None \<Rightarrow> None | Some fs \<Rightarrow> List.find (format_usable E) fs) \<and>
           (\<forall>f. soapy_sfmt (fst ?R) = Some f \<longrightarrow>
              sfmt (fst ?R) = sample_format_from_string E f \<and>
              full_scale (fst ?R) = get_sample_full_scale_value E (sample_format_from_string E f) \<and>
              sample_size (fst ?R) = SoapySDR_formatToSize E f)"
    proof (cases formats)
      case None
      then show ?thesis using R rn tr2 by (simp add: emit_def is_native_log_def)
    next
      case (Some fs)
      show ?thesis
      proof (cases "List.find (format_usable E) fs")
        case None
        note fnone = this
        show ?thesis
        proof (cases "fs = []")
          case True
          then show ?thesis using R rn tr2 Some by (simp add: emit_def is_native_log_def)
        next
          case False
          then have "?R = search_formats E src fs r s2" using R Some by simp
          then show ?thesis
            using search_formats_find_None[OF fnone, of src r s2] rn tr2 Some fnone by simp
        qed
      next
        case (Some f)
        then have ne: "fs \<noteq> []" by auto
        then have "?R = search_formats E src fs r s2" using R \<open>formats = Some fs\<close> by simp
        then show ?thesis
          using search_formats_find_Some[OF Some, of src r s2] tr2 \<open>formats = Some fs\<close> Some
          by (simp add: emit_def is_native_log_def)
      qed
    qed
    then obtain rest where m: "world (snd ?R) = w2" "trace (snd ?R) = trace s2 @ rest"
      "\<forall>e\<in>set rest. \<not> is_native_log e"
      "soapy_sfmt (fst ?R) =
             (case formats of None \<Rightarrow> None | Some fs \<Rightarrow> List.find (format_usable E) fs)"
      "\<forall>f. soapy_sfmt (fst ?R) = Some f \<longrightarrow>
              sfmt (fst ?R) = sample_format_from_string E f \<and>
              full_scale (fst ?R) = get_sample_full_scale_value E (sample_format_from_string E f) \<and>
              sample_size (fst ?R) = SoapySDR_formatToSize E f"
      by blast
    have "new_events s (snd ?R) =
        Open (Call_getNativeStreamFormat fmt fullscale) # Open (Call_getStreamFormats formats) # rest"
      using m(2) tr2 by (simp add: new_events_def)
    then show "\<exists>formats w2 rest.
           SoapySDRDevice_getStreamFormats E dev w1 = (formats, w2) \<and>
           world (snd ?R) = w2 \<and>
           new_events s (snd ?R) =
             Open (Call_getNativeStreamFormat fmt fullscale) #
             Open (Call_getStreamFormats formats) # rest \<and>
           (\<forall>e\<in>set rest. \<not> is_native_log e) \<and>
           soapy_sfmt (fst ?R) =
             (case formats of None \<Rightarrow> None | Some fs \<Rightarrow> List.find (format_usable E) fs) \<and>
           (\<forall>f. soapy_sfmt (fst ?R) = Some f \<longrightarrow>
              sfmt (fst ?R) = sample_format_from_string E f \<and>
              full_scale (fst ?R) = get_sample_full_scale_value E (sample_format_from_string E f) \<and>
              sample_size (fst ?R) = SoapySDR_formatToSize E f)"
      using g m by blast
  qed
qed

theorem native_format_accepted_iff_usable_witness:
  "native_usable (demo_env ''CS16'' 32768 None) ''CS16'' 32768 \<and>
   soapysdr_choose_sample_format (demo_env ''CS16'' 32768 None) 1 ''demo'' demo_input =
     (\<lparr>sfmt = 2, soapy_sfmt = Some ''CS16'', full_scale = 32768, sample_size = 4\<rparr>,
      demo_input\<lparr>trace := [Open (Call_getNativeStreamFormat ''CS16'' 32768),
                           Stderr (Info (Using_native_format ''demo'' ''CS16'' 32768))]\<rparr>) \<and>
   \<not> native_usable (demo_env ''CS16'' 0 (Some [''CU8'', ''CS16''])) ''CS16'' 0 \<and>
   (\<exists>rest. new_events demo_input
       (snd (soapysdr_choose_sample_format (demo_env ''CS16'' 0 (Some [''CU8'', ''CS16''])) 1
               ''demo'' demo_input)) =
         Open (Call_getNativeStreamFormat ''CS16'' 0) #
         Open (Call_getStreamFormats (Some [''CU8'', ''CS16''])) # rest \<and>
       (\<forall>e\<in>set rest. \<not> is_native_log e)) \<and>
   fst (soapysdr_choose_sample_format (demo_env ''CS16'' 0 (Some [''CU8'', ''CS16''])) 1
          ''demo'' demo_input) =
     \<lparr>sfmt = 1, soapy_sfmt = Some ''CU8'', full_scale = 127.5, sample_size = 2\<rparr>"
proof -
  let ?Ea = "demo_env ''CS16'' 32768 None"
  let ?Eb = "demo_env ''CS16'' 0 (Some [''CU8'', ''CS16''])"
  let ?R = "soapysdr_choose_sample_format ?Eb 1 ''demo'' demo_input"
  have a: "native_usable ?Ea ''CS16'' 32768"
    by (simp add: native_usable_def format_usable_def demo_env_def)
  have b: "\<not> native_usable ?Eb ''CS16'' 0"
    by (simp add: native_usable_def format_usable_def demo_env_def)
  have c: "SoapySDRDevice_getNativeStreamFormat ?Ea 1 (world demo_input) = ((''CS16'', 32768), 0)"
    by (simp add: demo_env_def demo_input_def)
  have d: "SoapySDRDevice_getNativeStreamFormat ?Eb 1 (world demo_input) = ((''CS16'', 0), 0)"
    by (simp add: demo_env_def demo_input_def)
  have e: "SoapySDRDevice_getStreamFormats ?Eb 1 0 = (Some [''CU8'', ''CS16''], 0)"
    by (simp add: demo_env_def)
  have f: "double_to_float ?Ea 32768 = 32768"
    "sample_format_from_string ?Ea ''CS16'' = 2"
    "SoapySDR_formatToSize ?Ea ''CS16'' = 4"
    by (simp_all add: demo_env_def)
  have g: "demo_input\<lparr>world := 0, trace := trace demo_input @ x\<rparr> = demo_input\<lparr>trace := x\<rparr>" for x
    by (simp add: demo_input_def)
  have h: "List.find (format_usable ?Eb) [''CU8'', ''CS16''] = Some ''CU8''"
    by (simp add: format_usable_def demo_env_def)
  have k: "sample_format_from_string ?Eb ''CU8'' = 1"
    "get_sample_full_scale_value ?Eb 1 = 127.5"
    "SoapySDR_formatToSize ?Eb ''CU8'' = 2"
    by (simp_all add: demo_env_def)
  have p1: "soapysdr_choose_sample_format ?Ea 1 ''demo'' demo_input =
     (\<lparr>sfmt = 2, soapy_sfmt = Some ''CS16'', full_scale = 32768, sample_size = 4\<rparr>,
      demo_input\<lparr>trace := [Open (Call_getNativeStreamFormat ''CS16'' 32768),
                           Stderr (Info (Using_native_format ''demo'' ''CS16'' 32768))]\<rparr>)"
    using native_format_accepted_iff_usable[OF c, of "''demo''", THEN conjunct1, THEN mp, OF a]
    by (simp only: f g)
  from native_format_accepted_iff_usable[OF d, of "''demo''", THEN conjunct2, THEN mp, OF b]
  obtain formats w2 rest where
    q: "SoapySDRDevice_getStreamFormats ?Eb 1 0 = (formats, w2)"
       "new_events demo_input (snd ?R) =
          Open (Call_getNativeStreamFormat ''CS16'' 0) # Open (Call_getStreamFormats formats) # rest"
       "\<forall>e\<in>set rest. \<not> is_native_log e"
       "soapy_sfmt (fst ?R) =
          (case formats of None \<Rightarrow> None | Some fs \<Rightarrow> List.find (format_usable ?Eb) fs)"
       "\<forall>f. soapy_sfmt (fst ?R) = Some f \<longrightarrow>
              sfmt (fst ?R) = sample_format_from_string ?Eb f \<and>
              full_scale (fst ?R) = get_sample_full_scale_value ?Eb (sample_format_from_string ?Eb f) \<and>
              sample_size (fst ?R) = SoapySDR_formatToSize ?Eb f"
    by blast
  have fm: "formats = Some [''CU8'', ''CS16'']" using q(1) unfolding e by simp
  have p2: "\<exists>rest. new_events demo_input (snd ?R) =
         Open (Call_getNativeStreamFormat ''CS16'' 0) #
         Open (Call_getStreamFormats (Some [''CU8'', ''CS16''])) # rest \<and>
       (\<forall>e\<in>set rest. \<not> is_native_log e)"
    using q(2,3) unfolding fm by blast
  have n: "soapy_sfmt (fst ?R) = Some ''CU8''"
    using q(4) unfolding fm by (simp only: option.case h)
  have "sfmt (fst ?R) = 1 \<and> full_scale (fst ?R) = 127.5 \<and> sample_size (fst ?R) = 2"
    using q(5)[rule_format, OF n] unfolding k .
  then have p3: "fst ?R =
     \<lparr>sfmt = 1, soapy_sfmt = Some ''CU8'', full_scale = 127.5, sample_size = 2\<rparr>"
    using n by (cases "fst ?R") simp
  show ?thesis using a b p1 p2 p3 by blast
qed

text \<open>
  Claim C2. When the native format is not accepted and the list of stream formats of the
  device is not empty, the function selects the first entry of the list, in the order of
  the list, whose name maps to a known sample format and whose size is the size expected
  for it. The full scale of the result is the constant \<open>get_sample_full_scale_value\<close>
  gives for the sample format; the full scale the device reported does not enter it.
\<close>

theorem fallback_selects_first_usable:
  assumes "SoapySDRDevice_getNativeStreamFormat E dev (world s) = ((fmt, fullscale), w1)"
    and "\<not> native_usable E fmt fullscale"
    and "SoapySDRDevice_getStreamFormats E dev w1 = (Some (pre @ f # post), w2)"
    and "\<forall>g\<in>set pre. \<not> format_usable E g"
    and "format_usable E f"
  shows "soapysdr_choose_sample_format E dev src s =
     (\<lparr>sfmt = sample_format_from_string E f, soapy_sfmt = Some f,
       full_scale = get_sample_full_scale_value E (sample_format_from_string E f),
       sample_size = SoapySDR_formatToSize E f\<rparr>,
      s\<lparr>world := w2,
        trace := trace s @
          [Open (Call_getNativeStreamFormat fmt fullscale),
           Open (Call_getStreamFormats (Some (pre @ f # post))),
           Stderr (Info (Using_non_native_format src f
             (get_sample_full_scale_value E (sample_format_from_string E f))))]\<rparr>)"
proof -
  obtain r where t: "native_test E fmt fullscale
      \<lparr>sfmt = SFMT_UNDEF E, soapy_sfmt = None, full_scale = 0, sample_size = 0\<rparr> = (False, r)"
    using assms(2) native_test_fst[of E fmt fullscale] by (metis prod.collapse)
  show ?thesis
    using assms(1,3) t search_formats_first[OF assms(4,5), of src post r]
    by (simp add: soapysdr_choose_sample_format_def emit_def)
qed

theorem fallback_selects_first_usable_witness:
  "soapysdr_choose_sample_format (demo_env ''CS12'' 2048 (Some [''CF32'', ''CS16'', ''CS8''])) 1
      ''demo'' demo_input =
     (\<lparr>sfmt = 2, soapy_sfmt = Some ''CS16'', full_scale = 32767.5, sample_size = 4\<rparr>,
      demo_input\<lparr>trace :=
          [Open (Call_getNativeStreamFormat ''CS12'' 2048),
           Open (Call_getStreamFormats (Some [''CF32'', ''CS16'', ''CS8''])),
           Stderr (Info (Using_non_native_format ''demo'' ''CS16'' 32767.5))]\<rparr>)"
proof -
  let ?E = "demo_env ''CS12'' 2048 (Some [''CF32'', ''CS16'', ''CS8''])"
  have a: "SoapySDRDevice_getNativeStreamFormat ?E 1 (world demo_input) = ((''CS12'', 2048), 0)"
    by (simp add: demo_env_def demo_input_def)
  have b: "\<not> native_usable ?E ''CS12'' 2048"
    by (simp add: native_usable_def format_usable_def demo_env_def)
  have c: "SoapySDRDevice_getStreamFormats ?E 1 0 = (Some ([''CF32''] @ ''CS16'' # [''CS8'']), 0)"
    by (simp add: demo_env_def)
  have d: "\<forall>g\<in>set [''CF32'']. \<not> format_usable ?E g"
    by (simp add: format_usable_def demo_env_def)
  have e: "format_usable ?E ''CS16''"
    by (simp add: format_usable_def demo_env_def)
  have f: "sample_format_from_string ?E ''CS16'' = 2"
    "SoapySDR_formatToSize ?E ''CS16'' = 4"
    "get_sample_full_scale_value ?E 2 = 32767.5"
    by (simp_all add: demo_env_def)
  have g: "demo_input\<lparr>world := 0, trace := trace demo_input @ x\<rparr> = demo_input\<lparr>trace := x\<rparr>" for x
    by (simp add: demo_input_def)
  show ?thesis
    using fallback_selects_first_usable[OF a b c d e, of "''demo''"] by (simp add: f g)
qed

text \<open>
  Claim C8 says that the negotiation returns \<^verbatim>\<open>SFMT_UNDEF\<close> when no entry of the list
  passes the test, and that the initialization then fails with the line "could not find
  a suitable sample format". The loop writes \<^verbatim>\<open>result.sfmt\<close> in its condition and does
  not reset it when the entries run out, so the result carries the sample format of the
  last entry. On the device below the native format is unknown and the list is CS8 (not
  known) and CF32 (known, wrong size): no entry passes, yet the function returns the
  sample format 3 with no format name, and \<open>soapysdr_input_init\<close> goes on to set up a
  stream with a NULL format name; it fails there with "could not set up stream", after
  writing the sample format and the sample size to the input.
\<close>

theorem unusable_last_entry_not_rejected:
  "\<not> format_usable (demo_env ''CS12'' 2048 (Some [''CS8'', ''CF32''])) ''CS8'' \<and>
   \<not> format_usable (demo_env ''CS12'' 2048 (Some [''CS8'', ''CF32''])) ''CF32'' \<and>
   \<not> native_usable (demo_env ''CS12'' 2048 (Some [''CS8'', ''CF32''])) ''CS12'' 2048 \<and>
   SFMT_UNDEF (demo_env ''CS12'' 2048 (Some [''CS8'', ''CF32''])) = 0 \<and>
   fst (soapysdr_choose_sample_format (demo_env ''CS12'' 2048 (Some [''CS8'', ''CF32''])) 1
          ''driver=demo'' demo_input) =
     \<lparr>sfmt = 3, soapy_sfmt = None, full_scale = 0, sample_size = 16\<rparr> \<and>
   soapysdr_input_init (demo_env ''CS12'' 2048 (Some [''CS8'', ''CF32''])) demo_cfg demo_input =
     (- 1,
      \<lparr>world = 0,
       trace =
         [Open (Call_enumerate [[(''driver'', ''demo'')]]),
          Stderr (Info (Found_device 0)),
          Stderr (Info (Device_kv ''driver'' ''demo'')),
          Open (Call_makeStrArgs ''driver=demo'' (Some 1)),
          Tune (Call_setSampleRate 250000 0),
          Tune (Call_setFrequency 8900000 0),
          Stderr (Info (Center_frequency_set ''driver=demo'' 8900000)),
          Tune (Call_setFrequencyCorrection 0 0),
          Stderr (Info (Frequency_correction_set ''driver=demo'' 0)),
          Tune (Call_hasDCOffsetMode True),
          Tune (Call_setDCOffsetMode True 0),
          Gain (Call_hasGainMode True),
          Gain (Call_setGainMode True 0),
          Stderr (Info (Auto_gain_enabled ''driver=demo'')),
          Tune (Call_getAntenna ''RX''),
          Stderr (Info (Using_antenna ''driver=demo'' ''RX'')),
          Open (Call_getNativeStreamFormat ''CS12'' 2048),
          Open (Call_getStreamFormats (Some [''CS8'', ''CF32''])),
          Open (Call_setupStream None None),
          Open (Call_lastError ''device error''),
          Stderr (Report (Could_not_set_up_stream ''driver=demo'' ''device error''))],
       cfg_sfmt = 3, input_full_scale = 0, bytes_per_sample = 16, max_tu = 0,
       running = False, sdr = None, stream = None\<rparr>)"
  by (simp add: format_usable_def native_usable_def eval_defs)

text \<open>
  In general: when the native format is not accepted and no entry of the list passes the
  test, the sample format of the result is \<^verbatim>\<open>SFMT_UNDEF\<close> if the list is unreadable or
  empty, and the sample format of the name of the last entry otherwise; the format name
  of the result is NULL in all these cases. The initialization reports "could not find a
  suitable sample format" exactly when the sample format of the result is
  \<^verbatim>\<open>SFMT_UNDEF\<close>.
\<close>

lemma negotiation_without_usable_entry:
  assumes "SoapySDRDevice_getNativeStreamFormat E dev (world s) = ((fmt, fullscale), w1)"
    and "\<not> native_usable E fmt fullscale"
    and "SoapySDRDevice_getStreamFormats E dev w1 = (formats, w2)"
    and "\<forall>fs. formats = Some fs \<longrightarrow> (\<forall>g\<in>set fs. \<not> format_usable E g)"
  shows "sfmt (fst (soapysdr_choose_sample_format E dev src s)) =
           (case formats of
              None \<Rightarrow> SFMT_UNDEF E
            | Some fs \<Rightarrow> if fs = [] then SFMT_UNDEF E else sample_format_from_string E (last fs))"
    and "soapy_sfmt (fst (soapysdr_choose_sample_format E dev src s)) = None"
proof -
  obtain r where t: "native_test E fmt fullscale
      \<lparr>sfmt = SFMT_UNDEF E, soapy_sfmt = None, full_scale = 0, sample_size = 0\<rparr> = (False, r)"
    using assms(2) native_test_fst[of E fmt fullscale] by (metis prod.collapse)
  have "soapy_sfmt (snd (native_test E fmt fullscale
      \<lparr>sfmt = SFMT_UNDEF E, soapy_sfmt = None, full_scale = 0, sample_size = 0\<rparr>)) = None"
    by (simp add: native_test_def Let_def)
  then have n: "soapy_sfmt r = None" by (simp add: t)
  show "sfmt (fst (soapysdr_choose_sample_format E dev src s)) =
           (case formats of
              None \<Rightarrow> SFMT_UNDEF E
            | Some fs \<Rightarrow> if fs = [] then SFMT_UNDEF E else sample_format_from_string E (last fs))"
  proof (cases formats)
    case None
    then show ?thesis using assms(1,3) t by (simp add: soapysdr_choose_sample_format_def emit_def Let_def)
  next
    case (Some fs)
    then have "\<forall>g\<in>set fs. \<not> format_usable E g" using assms(4) by simp
    then show ?thesis using assms(1,3) t Some search_formats_none_usable[of fs E src r]
      by (simp add: soapysdr_choose_sample_format_def emit_def Let_def)
  qed
  show "soapy_sfmt (fst (soapysdr_choose_sample_format E dev src s)) = None"
  proof (cases formats)
    case None
    then show ?thesis using assms(1,3) t n by (simp add: soapysdr_choose_sample_format_def emit_def Let_def)
  next
    case (Some fs)
    then have "\<forall>g\<in>set fs. \<not> format_usable E g" using assms(4) by simp
    then show ?thesis using assms(1,3) t n Some search_formats_none_usable[of fs E src r]
      by (simp add: soapysdr_choose_sample_format_def emit_def Let_def)
  qed
qed

lemma init_without_suitable_format:
  "sfmt (fst (soapysdr_choose_sample_format E dev (source cfg) s)) = SFMT_UNDEF E \<Longrightarrow>
   setup_stream E cfg dev s =
     Return (- 1) (emit (Stderr (No_suitable_sample_format (source cfg)))
                     (snd (soapysdr_choose_sample_format E dev (source cfg) s)))"
  by (cases "soapysdr_choose_sample_format E dev (source cfg) s") (simp add: setup_stream_def)

subsection \<open>The configuration sequence\<close>












text \<open>
  Claim C10. When \<open>soapysdr_input_init\<close> returns a failure, the fields \<open>sdr\<close> and
  \<open>stream\<close> of the backend state have the values they had before the call (NULL after
  \<^verbatim>\<open>soapysdr_input_create\<close>): they are assigned only on the path that returns 0. The
  sample format, the full scale and the sample size may have been written by then: when
  the negotiation succeeds and the stream cannot be set up, the block returns -1 with
  these three fields set to the negotiated values.
\<close>

theorem failed_init_leaves_handles:
  "(fst (soapysdr_input_init E cfg s) \<noteq> 0 \<longrightarrow>
      sdr (snd (soapysdr_input_init E cfg s)) = sdr s \<and>
      stream (snd (soapysdr_input_init E cfg s)) = stream s) \<and>
   (soapysdr_choose_sample_format E dev (source cfg) s = (chosen, s1) \<and>
    sfmt chosen \<noteq> SFMT_UNDEF E \<and>
    fst (SoapySDRDevice_setupStream E dev (soapy_sfmt chosen) (world s1)) = None \<longrightarrow>
      (\<exists>s'. setup_stream E cfg dev s = Return (- 1) s' \<and>
            cfg_sfmt s' = sfmt chosen \<and> input_full_scale s' = full_scale chosen \<and>
            bytes_per_sample s' = sample_size chosen \<and>
            sdr s' = sdr s \<and> stream s' = stream s))"
proof -
  have part1: "sdr (snd (soapysdr_input_init E cfg s)) = sdr s \<and>
      stream (snd (soapysdr_input_init E cfg s)) = stream s"
    if "fst (soapysdr_input_init E cfg s) \<noteq> 0"
    using that init_flow_ok[of cfg s E]
    by (cases "init_flow E cfg s") (auto simp add: init_as_flow step_ok_def quiet_def aborted_def)
  have part2: "\<exists>s'. setup_stream E cfg dev s = Return (- 1) s' \<and>
            cfg_sfmt s' = sfmt chosen \<and> input_full_scale s' = full_scale chosen \<and>
            bytes_per_sample s' = sample_size chosen \<and>
            sdr s' = sdr s \<and> stream s' = stream s"
    if a: "soapysdr_choose_sample_format E dev (source cfg) s = (chosen, s1) \<and>
      sfmt chosen \<noteq> SFMT_UNDEF E \<and>
      fst (SoapySDRDevice_setupStream E dev (soapy_sfmt chosen) (world s1)) = None"
  proof -
    have q: "quiet cfg s s1" using choose_quiet[of cfg s E dev "source cfg"] a by simp
    obtain w3 where "SoapySDRDevice_setupStream E dev (soapy_sfmt chosen) (world s1) = (None, w3)"
      using a by (cases "SoapySDRDevice_setupStream E dev (soapy_sfmt chosen) (world s1)") auto
    then show ?thesis
      using a q by (simp add: setup_stream_def report_failure_def Let_def emit_def quiet_def)
  qed
  show ?thesis using part1 part2 by blast
qed

theorem failed_init_leaves_handles_witness:
  "fst (soapysdr_input_init demo_no_stream_env demo_cfg demo_input) \<noteq> 0 \<and>
   sdr (snd (soapysdr_input_init demo_no_stream_env demo_cfg demo_input)) = None \<and>
   stream (snd (soapysdr_input_init demo_no_stream_env demo_cfg demo_input)) = None \<and>
   sfmt (fst (soapysdr_choose_sample_format demo_no_stream_env 1 (source demo_cfg) demo_input))
     \<noteq> SFMT_UNDEF demo_no_stream_env \<and>
   (\<exists>s'. setup_stream demo_no_stream_env demo_cfg 1 demo_input = Return (- 1) s' \<and>
         cfg_sfmt s' = 2 \<and> input_full_scale s' = 32768 \<and> bytes_per_sample s' = 4 \<and>
         sdr s' = None \<and> stream s' = None)"
proof -
  let ?E = demo_no_stream_env
  let ?C = "soapysdr_choose_sample_format ?E 1 (source demo_cfg) demo_input"
  have n: "fst (soapysdr_input_init ?E demo_cfg demo_input) \<noteq> 0"
    by (simp add: eval_defs)
  have c: "fst ?C = \<lparr>sfmt = 2, soapy_sfmt = Some ''CS16'', full_scale = 32768, sample_size = 4\<rparr>"
    by (simp add: eval_defs)
  have u: "SFMT_UNDEF ?E = 0" by (simp add: eval_defs)
  have h: "?C = (fst ?C, snd ?C) \<and> sfmt (fst ?C) \<noteq> SFMT_UNDEF ?E \<and>
     fst (SoapySDRDevice_setupStream ?E 1 (soapy_sfmt (fst ?C)) (world (snd ?C))) = None"
    by (simp add: c u) (simp add: eval_defs)
  have i: "sdr demo_input = None" "stream demo_input = None" by (simp_all add: demo_input_def)
  note inst = failed_init_leaves_handles[of ?E demo_cfg demo_input 1 "fst ?C" "snd ?C"]
  have p1: "sdr (snd (soapysdr_input_init ?E demo_cfg demo_input)) = None \<and>
      stream (snd (soapysdr_input_init ?E demo_cfg demo_input)) = None"
    using inst[THEN conjunct1, THEN mp, OF n] unfolding i .
  have p2: "\<exists>s'. setup_stream ?E demo_cfg 1 demo_input = Return (- 1) s' \<and>
         cfg_sfmt s' = 2 \<and> input_full_scale s' = 32768 \<and> bytes_per_sample s' = 4 \<and>
         sdr s' = None \<and> stream s' = None"
    using inst[THEN conjunct2, THEN mp, OF h, unfolded c i] by simp
  have p3: "sfmt (fst ?C) \<noteq> SFMT_UNDEF ?E" using h by blast
  show ?thesis using n p1 p2 p3 by blast
qed

subsection \<open>The capture thread\<close>



text \<open>
  Claim C6. A pass through the loop whose read returns a negative result writes the error
  to stderr and ends: its events are the read and the line on stderr, the output buffer
  is untouched, nothing is converted and nothing is pushed. The negative result does not
  end the loop: after such a pass the loop tests the flag again, and goes on with the
  next pass unless the flag is set.
\<close>

theorem negative_read_continues:
  assumes "SoapySDRDevice_readStream E (sdr s) (stream s) inbuf (max_tu s) (world s) = ((n, inbuf'), w1)"
    and "n < 0"
  shows "capture_iteration E cfg (inbuf, outbuf, s) =
      (inbuf', outbuf,
       s\<lparr>world := w1,
         trace := trace s @
           [Capture (Call_readStream (max_tu s) n),
            Stderr (ReadStream_failed (source cfg) (SoapySDR_errToStr E n))]\<rparr>) \<and>
    (get_do_exit E (world s) = 0 \<longrightarrow>
       capture_loop E cfg (inbuf, outbuf, s) =
         (if get_do_exit E w1 = 0
          then capture_loop E cfg (capture_iteration E cfg (capture_iteration E cfg (inbuf, outbuf, s)))
          else Some (snd (snd (capture_iteration E cfg (inbuf, outbuf, s))))))"
proof -
  have it: "capture_iteration E cfg (inbuf, outbuf, s) =
      (inbuf', outbuf,
       s\<lparr>world := w1,
         trace := trace s @
           [Capture (Call_readStream (max_tu s) n),
            Stderr (ReadStream_failed (source cfg) (SoapySDR_errToStr E n))]\<rparr>)"
    using assms by (simp add: capture_iteration_def emit_def)
  have "capture_loop E cfg (inbuf, outbuf, s) =
         (if get_do_exit E w1 = 0
          then capture_loop E cfg (capture_iteration E cfg (capture_iteration E cfg (inbuf, outbuf, s)))
          else Some (snd (snd (capture_iteration E cfg (inbuf, outbuf, s)))))"
    if z: "get_do_exit E (world s) = 0"
  proof -
    have "capture_loop E cfg (inbuf, outbuf, s) =
        capture_loop E cfg (capture_iteration E cfg (inbuf, outbuf, s))"
      using z by (subst capture_loop.simps) simp
    also have "\<dots> = (if get_do_exit E w1 = 0
          then capture_loop E cfg (capture_iteration E cfg (capture_iteration E cfg (inbuf, outbuf, s)))
          else Some (snd (snd (capture_iteration E cfg (inbuf, outbuf, s)))))"
      by (subst capture_loop.simps) (simp add: it)
    finally show ?thesis .
  qed
  then show ?thesis using it by blast
qed

theorem negative_read_continues_witness:
  "capture_iteration (demo_env ''CS16'' 32768 None) demo_cfg ([], [], demo_ready_input) =
     ([], [],
      demo_ready_input\<lparr>world := 1,
        trace := [Capture (Call_readStream 2 (- 1)),
                  Stderr (ReadStream_failed ''driver=demo'' ''TIMEOUT'')]\<rparr>) \<and>
   capture_loop (demo_env ''CS16'' 32768 None) demo_cfg ([], [], demo_ready_input) =
     capture_loop (demo_env ''CS16'' 32768 None) demo_cfg
       (capture_iteration (demo_env ''CS16'' 32768 None) demo_cfg
         (capture_iteration (demo_env ''CS16'' 32768 None) demo_cfg ([], [], demo_ready_input)))"
proof -
  let ?E = "demo_env ''CS16'' 32768 None"
  have a: "SoapySDRDevice_readStream ?E (sdr demo_ready_input) (stream demo_ready_input) []
      (max_tu demo_ready_input) (world demo_ready_input) = ((- 1, []), 1)"
    by (simp add: demo_env_def demo_ready_input_def)
  have b: "(- 1 :: int) < 0" by simp
  have v: "max_tu demo_ready_input = 2" "source demo_cfg = ''driver=demo''"
    "SoapySDR_errToStr ?E (- 1) = ''TIMEOUT''" "trace demo_ready_input = []"
    "get_do_exit ?E (world demo_ready_input) = 0" "get_do_exit ?E 1 = 0"
    by (simp_all add: demo_env_def demo_ready_input_def demo_cfg_def)
  note inst = negative_read_continues[OF a b, of demo_cfg "[]"]
  have p1: "capture_iteration ?E demo_cfg ([], [], demo_ready_input) =
     ([], [],
      demo_ready_input\<lparr>world := 1,
        trace := [Capture (Call_readStream 2 (- 1)),
                  Stderr (ReadStream_failed ''driver=demo'' ''TIMEOUT'')]\<rparr>)"
    using inst[THEN conjunct1] unfolding v by simp
  have p2: "capture_loop ?E demo_cfg ([], [], demo_ready_input) =
     capture_loop ?E demo_cfg
       (capture_iteration ?E demo_cfg (capture_iteration ?E demo_cfg ([], [], demo_ready_input)))"
    using inst[THEN conjunct2, THEN mp, OF v(5)] unfolding v(6) by simp
  show ?thesis using p1 p2 by blast
qed

text \<open>
  Claim C7. A pass through the loop whose read returns \<open>n \<ge> 0\<close> samples calls the
  converter once, on the raw buffer as the read left it and with \<open>n\<close> times the sample
  size as the number of bytes, and then pushes once, with the output buffer as the
  converter left it and the count \<open>n\<close>; these three are all the events of the pass, in
  this order, also for \<open>n = 0\<close>, where the push is a push of no sample. Over a whole run
  of the loop, the counts of the pushes are the results of the reads that are not
  negative, in the order of the reads. (The converter and the channel are not part of the
  file: what they do with the bytes and the samples they are given is theirs. The product
  of the count and the sample size is taken in unbounded arithmetic.)
\<close>

theorem nonnegative_read_converted_and_pushed:
  "(SoapySDRDevice_readStream E (sdr s) (stream s) inbuf (max_tu s) (world s) = ((n, inbuf'), w1) \<and>
    0 \<le> n \<and>
    outbuf' = convert_sample_buffer E
                (s\<lparr>world := w1, trace := trace s @ [Capture (Call_readStream (max_tu s) n)]\<rparr>)
                inbuf' (nat n * bytes_per_sample s) outbuf \<longrightarrow>
      capture_iteration E cfg (inbuf, outbuf, s) =
        (inbuf', outbuf',
         s\<lparr>world := complex_samples_produce E outbuf' (nat n) w1,
           trace := trace s @
             [Capture (Call_readStream (max_tu s) n),
              Capture (Call_convert_sample_buffer inbuf' (nat n * bytes_per_sample s)),
              Capture (Call_complex_samples_produce outbuf' (nat n))]\<rparr>)) \<and>
   (capture_loop E cfg c = Some s' \<longrightarrow>
      pushed_counts (new_events (snd (snd c)) s') =
        map nat (filter (\<lambda>n. 0 \<le> n) (read_results (new_events (snd (snd c)) s'))))"
proof -
  have p1: "capture_iteration E cfg (inbuf, outbuf, s) =
        (inbuf', outbuf',
         s\<lparr>world := complex_samples_produce E outbuf' (nat n) w1,
           trace := trace s @
             [Capture (Call_readStream (max_tu s) n),
              Capture (Call_convert_sample_buffer inbuf' (nat n * bytes_per_sample s)),
              Capture (Call_complex_samples_produce outbuf' (nat n))]\<rparr>)"
    if "SoapySDRDevice_readStream E (sdr s) (stream s) inbuf (max_tu s) (world s) = ((n, inbuf'), w1) \<and>
    0 \<le> n \<and>
    outbuf' = convert_sample_buffer E
                (s\<lparr>world := w1, trace := trace s @ [Capture (Call_readStream (max_tu s) n)]\<rparr>)
                inbuf' (nat n * bytes_per_sample s) outbuf"
    using that by (simp add: capture_iteration_def emit_def Let_def)
  have p2: "pushed_counts (new_events (snd (snd c)) s') =
        map nat (filter (\<lambda>n. 0 \<le> n) (read_results (new_events (snd (snd c)) s')))"
    if "capture_loop E cfg c = Some s'"
    using capture_loop_pushes[OF that] by (auto simp add: new_events_def pushes_follow_reads_def)
  show ?thesis using p1 p2 by blast
qed

theorem nonnegative_read_converted_and_pushed_witness:
  "capture_iteration (demo_env ''CS16'' 32768 None) demo_cfg
       (replicate 8 0, [0, 0], demo_ready_input\<lparr>world := 1\<rparr>) =
     ([1, 2, 3, 4], [1, 0],
      demo_ready_input\<lparr>world := 2,
        trace := [Capture (Call_readStream 2 1),
                  Capture (Call_convert_sample_buffer [1, 2, 3, 4] 4),
                  Capture (Call_complex_samples_produce [1, 0] 1)]\<rparr>) \<and>
   (\<exists>s'. capture_loop (demo_env ''CS16'' 32768 None) demo_cfg
            (loop_entry (demo_env ''CS16'' 32768 None) demo_ready_input) = Some s' \<and>
      pushed_counts (new_events (snd (snd (loop_entry (demo_env ''CS16'' 32768 None) demo_ready_input))) s') =
        map nat (filter (\<lambda>n. 0 \<le> n)
          (read_results (new_events (snd (snd (loop_entry (demo_env ''CS16'' 32768 None) demo_ready_input))) s'))))"
proof -
  let ?E = "demo_env ''CS16'' 32768 None"
  let ?s = "demo_ready_input\<lparr>world := 1\<rparr>"
  have a: "SoapySDRDevice_readStream ?E (sdr ?s) (stream ?s) (replicate 8 0) (max_tu ?s) (world ?s)
     = ((1, [1, 2, 3, 4]), 2) \<and> (0 :: int) \<le> 1 \<and>
     [1, 0] = convert_sample_buffer ?E
                (?s\<lparr>world := 2, trace := trace ?s @ [Capture (Call_readStream (max_tu ?s) 1)]\<rparr>)
                [1, 2, 3, 4] (nat 1 * bytes_per_sample ?s) [0, 0]"
    by (simp add: demo_env_def demo_ready_input_def)
  have p1: "capture_iteration ?E demo_cfg (replicate 8 0, [0, 0], ?s) =
     ([1, 2, 3, 4], [1, 0],
      demo_ready_input\<lparr>world := 2,
        trace := [Capture (Call_readStream 2 1),
                  Capture (Call_convert_sample_buffer [1, 2, 3, 4] 4),
                  Capture (Call_complex_samples_produce [1, 0] 1)]\<rparr>)"
    using nonnegative_read_converted_and_pushed[where E = ?E and s = ?s and inbuf = "replicate 8 0"
        and n = 1 and inbuf' = "[1, 2, 3, 4]" and ?w1.0 = 2 and outbuf' = "[1, 0]" and outbuf = "[0, 0]"
        and cfg = demo_cfg,
        THEN conjunct1, THEN mp, OF a]
    by (simp add: demo_env_def demo_ready_input_def)
  let ?c = "loop_entry ?E demo_ready_input"
  let ?s' = "snd (snd ((capture_iteration ?E demo_cfg ^^ 3) ?c))"
  have l: "capture_loop ?E demo_cfg ?c = Some ?s'"
    using demo_cancelled_after_three[of "''CS16''" 32768 None]
    by (intro capture_loop_returns) blast+
  have p2: "pushed_counts (new_events (snd (snd ?c)) ?s') =
        map nat (filter (\<lambda>n. 0 \<le> n) (read_results (new_events (snd (snd ?c)) ?s')))"
    using nonnegative_read_converted_and_pushed[where E = ?E and cfg = demo_cfg and c = ?c and s' = ?s',
        THEN conjunct2, THEN mp, OF l] .
  show ?thesis using p1 p2 l by blast
qed

end
